theory Spec2Isabelle
  imports Main "HOL-Library.Sublist"
begin

text \<open>
  A shallow embedding of \<open>app.py\<close>, the question-answering pipeline of the
  T-shirt store assistant: \<open>clean_response_text\<close> and the methods of
  \<open>TShirtStoreAI\<close> (\<open>get_db_connection\<close>, \<open>get_schema_info\<close>,
  \<open>natural_language_to_sql\<close>, \<open>execute_query\<close>, \<open>format_response\<close>,
  \<open>format_dataframe_simple\<close>) and the handler of the "Get Answer" button in
  \<open>main\<close>. The language model, the database, the clock and pandas are outside
  the program; they are the fields of an environment \<open>env\<close>, and every theorem
  holds for all of them. What the program does to the outside world (prompts sent,
  database calls, messages shown by the methods) is recorded in a state \<open>effects\<close>
  that every function takes and returns.
\<close>

section \<open>Python strings\<close>

text \<open>
  A Python \<open>str\<close> is modelled by the bytes of its UTF-8 encoding, as a HOL
  \<open>string\<close>. The program never measures or indexes a string; it concatenates,
  tests prefixes, strips white space and rewrites with regular expressions whose
  literals and letter classes are ASCII, and these act on the UTF-8 bytes as they act
  on the code points. The one class that reaches beyond ASCII is \<open>\d\<close>; for it
  the bytes are decoded.
\<close>

definition is_upper :: "char \<Rightarrow> bool" where
  \<comment> \<open>the class \<open>[A-Z]\<close>\<close>
  "is_upper c = (let n = (of_char c :: nat) in 65 \<le> n \<and> n \<le> 90)"

definition is_lower :: "char \<Rightarrow> bool" where
  \<comment> \<open>the class \<open>[a-z]\<close>\<close>
  "is_lower c = (let n = (of_char c :: nat) in 97 \<le> n \<and> n \<le> 122)"

definition is_letter :: "char \<Rightarrow> bool" where
  \<comment> \<open>the class \<open>[a-zA-Z]\<close>\<close>
  "is_letter c = (is_lower c \<or> is_upper c)"

definition is_period :: "char \<Rightarrow> bool" where
  \<comment> \<open>the escaped literal \<open>\.\<close>\<close>
  "is_period c = (c = CHR ''.'')"

text \<open>
  \<open>re.sub(r'(P)(Q)', r'\1 \2', text)\<close> for two single-character classes \<open>P\<close>
  and \<open>Q\<close>: the scan goes left to right, a match is replaced by its two
  characters with a space between them, and the scan resumes after the match (matches
  do not overlap). The first rule of \<open>clean_response_text\<close>,
  \<open>re.sub(r'\.([A-Z])', r'. \1', text)\<close>, has the same shape.
\<close>

fun re_sub_pair :: "(char \<Rightarrow> bool) \<Rightarrow> (char \<Rightarrow> bool) \<Rightarrow> string \<Rightarrow> string" where
  "re_sub_pair p q (a # b # s) =
     (if p a \<and> q b then a # CHR '' '' # b # re_sub_pair p q s
      else a # re_sub_pair p q (b # s))"
| "re_sub_pair p q s = s"

text \<open>
  The class \<open>\d\<close> of a pattern on a \<open>str\<close> is every Unicode decimal digit
  (general category Nd), not the ASCII digits alone. In UTF-8 such a digit is one byte,
  or a lead byte followed by one to three continuation bytes. \<open>utf8_len\<close> is the
  length that a lead byte announces, \<open>code_point\<close> the code point that a sequence
  of that length encodes, and \<open>is_decimal\<close> the set of the decimal digits: the
  ASCII digits, the runs of ten digits that start at the code points of
  \<open>decimal_zeros\<close>, and the fifty mathematical digits from U+1D7CE (Unicode 14.0,
  the table of Python 3.11). \<open>digit_len s\<close> is the number of bytes of the decimal
  digit with which \<open>s\<close> starts, and 0 when it starts with none.
\<close>

definition is_cont :: "char \<Rightarrow> bool" where
  \<comment> \<open>a continuation byte\<close>
  "is_cont c = (let n = (of_char c :: nat) in 128 \<le> n \<and> n \<le> 191)"

definition utf8_len :: "char \<Rightarrow> nat" where
  "utf8_len c =
     (let n = (of_char c :: nat)
      in if n < 128 then 1
         else if 194 \<le> n \<and> n \<le> 223 then 2
         else if 224 \<le> n \<and> n \<le> 239 then 3
         else if 240 \<le> n \<and> n \<le> 244 then 4
         else 0)"

fun code_point :: "string \<Rightarrow> nat" where
  "code_point [a] = of_char a"
| "code_point [a, b] = (of_char a - 192) * 64 + (of_char b - 128)"
| "code_point [a, b, c] = (of_char a - 224) * 4096 + (of_char b - 128) * 64 + (of_char c - 128)"
| "code_point [a, b, c, d] =
     (of_char a - 240) * 262144 + (of_char b - 128) * 4096 + (of_char c - 128) * 64
     + (of_char d - 128)"
| "code_point s = 0"

definition decimal_zeros :: "nat list" where
  "decimal_zeros =
     [0x0660, 0x06F0, 0x07C0, 0x0966, 0x09E6, 0x0A66, 0x0AE6, 0x0B66, 0x0BE6, 0x0C66,
      0x0CE6, 0x0D66, 0x0DE6, 0x0E50, 0x0ED0, 0x0F20, 0x1040, 0x1090, 0x17E0, 0x1810,
      0x1946, 0x19D0, 0x1A80, 0x1A90, 0x1B50, 0x1BB0, 0x1C40, 0x1C50, 0xA620, 0xA8D0,
      0xA900, 0xA9D0, 0xA9F0, 0xAA50, 0xABF0, 0xFF10, 0x104A0, 0x10D30, 0x11066,
      0x110F0, 0x11136, 0x111D0, 0x112F0, 0x11450, 0x114D0, 0x11650, 0x116C0, 0x11730,
      0x118E0, 0x11950, 0x11C50, 0x11D50, 0x11DA0, 0x16A60, 0x16AC0, 0x16B50, 0x1E140,
      0x1E2F0, 0x1E950, 0x1FBF0]"

definition is_decimal :: "nat \<Rightarrow> bool" where
  "is_decimal n =
     (if n < 128 then 48 \<le> n \<and> n \<le> 57
      else (\<exists>z \<in> set decimal_zeros. z \<le> n \<and> n < z + 10) \<or> (0x1D7CE \<le> n \<and> n \<le> 0x1D7FF))"

definition digit_len :: "string \<Rightarrow> nat" where
  "digit_len s =
     (case s of
        [] \<Rightarrow> 0
      | a # r \<Rightarrow>
          (let n = utf8_len a
           in if 0 < n \<and> n \<le> length s \<and> list_all is_cont (take (n - 1) r)
                 \<and> is_decimal (code_point (take n s))
              then n else 0))"

text \<open>
  \<open>re.sub(r'(\d)([a-zA-Z])', r'\1 \2', text)\<close>, the third rule of
  \<open>clean_response_text\<close>: where a decimal digit is followed by an ASCII letter, a
  space is put between them, and the scan resumes after the letter. At a byte inside a
  character no digit starts, so scanning the bytes is scanning the characters.
\<close>

function re_sub_digit_letter :: "string \<Rightarrow> string" where
  "re_sub_digit_letter [] = []"
| "re_sub_digit_letter (a # s) =
     (let n = digit_len (a # s)
      in case drop n (a # s) of
           b # rest \<Rightarrow>
             if 0 < n \<and> is_letter b
             then take n (a # s) @ CHR '' '' # b # re_sub_digit_letter rest
             else a # re_sub_digit_letter s
         | [] \<Rightarrow> a # re_sub_digit_letter s)"
  by pat_completeness auto
termination
proof (relation "measure length")
  show "wf (measure length)" by simp
next
  fix a :: char and s :: string and n :: nat and b :: char and rest :: string
  assume "drop n (a # s) = b # rest"
  then have "length (b # rest) \<le> length (a # s)"
    by (metis length_drop diff_le_self)
  then show "(rest, a # s) \<in> measure length" by simp
next
  fix a :: char and s :: string
  show "(s, a # s) \<in> measure length" by simp
next
  fix a :: char and s :: string
  show "(s, a # s) \<in> measure length" by simp
qed

declare re_sub_digit_letter.simps(2) [simp del]

text \<open>
  \<open>str.strip()\<close> removes the characters for which \<open>str.isspace()\<close> holds from
  both ends. \<open>whitespace\<close> lists them in UTF-8: U+0009 to U+000D, U+001C to U+0020,
  U+0085, U+00A0, U+1680, U+2000 to U+200A, U+2028, U+2029, U+202F, U+205F and U+3000.
\<close>

definition whitespace :: "string list" where
  "whitespace =
     [[CHR 0x09], [CHR 0x0A], [CHR 0x0B], [CHR 0x0C], [CHR 0x0D],
      [CHR 0x1C], [CHR 0x1D], [CHR 0x1E], [CHR 0x1F], [CHR 0x20],
      [CHR 0xC2, CHR 0x85], [CHR 0xC2, CHR 0xA0],
      [CHR 0xE1, CHR 0x9A, CHR 0x80],
      [CHR 0xE2, CHR 0x80, CHR 0x80], [CHR 0xE2, CHR 0x80, CHR 0x81],
      [CHR 0xE2, CHR 0x80, CHR 0x82], [CHR 0xE2, CHR 0x80, CHR 0x83],
      [CHR 0xE2, CHR 0x80, CHR 0x84], [CHR 0xE2, CHR 0x80, CHR 0x85],
      [CHR 0xE2, CHR 0x80, CHR 0x86], [CHR 0xE2, CHR 0x80, CHR 0x87],
      [CHR 0xE2, CHR 0x80, CHR 0x88], [CHR 0xE2, CHR 0x80, CHR 0x89],
      [CHR 0xE2, CHR 0x80, CHR 0x8A],
      [CHR 0xE2, CHR 0x80, CHR 0xA8], [CHR 0xE2, CHR 0x80, CHR 0xA9],
      [CHR 0xE2, CHR 0x80, CHR 0xAF], [CHR 0xE2, CHR 0x81, CHR 0x9F],
      [CHR 0xE3, CHR 0x80, CHR 0x80]]"

text \<open>
  \<open>strip_prefixes ws s\<close> removes from the front of \<open>s\<close>, for as long as there
  is one, a non-empty member of \<open>ws\<close>.
\<close>

function strip_prefixes :: "string list \<Rightarrow> string \<Rightarrow> string" where
  "strip_prefixes ws s =
     (case find (\<lambda>w. w \<noteq> [] \<and> prefix w s) ws of
        None \<Rightarrow> s
      | Some w \<Rightarrow> strip_prefixes ws (drop (length w) s))"
  by pat_completeness auto
termination
proof (relation "measure (\<lambda>(ws, s). length s)")
  show "wf (measure (\<lambda>(ws, s). length s))" by simp
next
  fix ws s w
  assume "find (\<lambda>w. w \<noteq> [] \<and> prefix w s) ws = Some w"
  then have "w \<noteq> []" and "prefix w s"
    by (auto simp add: find_Some_iff)
  then have "0 < length w" and "length w \<le> length s"
    by (auto simp add: prefix_length_le)
  then have "length s - length w < length s"
    by arith
  then show "((ws, drop (length w) s), (ws, s)) \<in> measure (\<lambda>(ws, s). length s)"
    by simp
qed

declare strip_prefixes.simps [simp del]

definition lstrip :: "string \<Rightarrow> string" where
  "lstrip s = strip_prefixes whitespace s"

definition rstrip :: "string \<Rightarrow> string" where
  "rstrip s = rev (strip_prefixes (map rev whitespace) (rev s))"

definition strip :: "string \<Rightarrow> string" where
  "strip s = rstrip (lstrip s)"

text \<open>
  \<open>re.sub(r'```TAG\n?', '', text)\<close>: every occurrence of three backticks followed
  by the literal \<open>TAG\<close> is deleted, with the newline after it when there is one;
  the scan resumes after the deleted text. The program calls it with the tags
  \<open>sql\<close> and the empty tag.
\<close>

definition backtick :: char where
  "backtick = CHR 0x60"

fun drop_newline :: "string \<Rightarrow> string" where
  "drop_newline (c # s) = (if c = CHR 0x0A then s else c # s)"
| "drop_newline [] = []"

function (sequential) re_sub_fence :: "string \<Rightarrow> string \<Rightarrow> string" where
  "re_sub_fence tag (a # b # c # s) =
     (if a = backtick \<and> b = backtick \<and> c = backtick \<and> prefix tag s
      then re_sub_fence tag (drop_newline (drop (length tag) s))
      else a # re_sub_fence tag (b # c # s))"
| "re_sub_fence tag s = s"
  by pat_completeness auto
termination
proof (relation "measure (\<lambda>(tag, s). length s)")
  show "wf (measure (\<lambda>(tag, s). length s))" by simp
next
  fix tag :: string and a b c :: char and s :: string
  have "length (drop_newline t) \<le> length t" for t
    by (cases t) auto
  then have "length (drop_newline (drop (length tag) s)) \<le> length (drop (length tag) s)" .
  then have "length (drop_newline (drop (length tag) s)) \<le> length s"
    by simp
  then show "((tag, drop_newline (drop (length tag) s)), (tag, a # b # c # s))
      \<in> measure (\<lambda>(tag, s). length s)"
    by simp
next
  fix tag :: string and a b c :: char and s :: string
  show "((tag, b # c # s), (tag, a # b # c # s)) \<in> measure (\<lambda>(tag, s). length s)"
    by simp
qed

text \<open>\<open>sep.join(xs)\<close>.\<close>

fun join :: "string \<Rightarrow> string list \<Rightarrow> string" where
  "join sep [] = ''''"
| "join sep [x] = x"
| "join sep (x # y # xs) = x @ sep @ join sep (y # xs)"

text \<open>The decimal numeral of a natural number, as \<open>str(n)\<close> and \<open>f"{n}"\<close> give it.\<close>

definition digit_char :: "nat \<Rightarrow> char" where
  \<comment> \<open>used with \<open>n < 10\<close> only\<close>
  "digit_char n = ''0123456789'' ! n"

fun str_nat :: "nat \<Rightarrow> string" where
  "str_nat n = (if n < 10 then [digit_char n] else str_nat (n div 10) @ [digit_char (n mod 10)])"

declare str_nat.simps [simp del]

section \<open>Python objects\<close>

text \<open>
  An exception is modelled by its message, \<open>str(e)\<close>. A function that can raise
  returns \<open>exn + 'a\<close>, with \<open>Inl\<close> for the exception.
\<close>

datatype exn = Exception string

text \<open>
  A \<open>float\<close> is a sign, a magnitude \<open>m * 2 ^ e\<close> or infinity, or not a number.
  \<open>format_2f\<close> is the format specification \<open>:.2f\<close>: the exact value rounded to
  two decimals, a tie going to the even neighbour, the sign kept also when the result
  is zero.
\<close>

datatype pyfloat = Finite bool nat int | Infinite bool | NaN

definition round_half_even :: "nat \<Rightarrow> nat \<Rightarrow> nat" where
  "round_half_even p q =
     (let d = p div q; r = p mod q
      in if 2 * r < q then d else if q < 2 * r then d + 1 else if even d then d else d + 1)"

fun format_2f :: "pyfloat \<Rightarrow> string" where
  "format_2f (Finite neg m e) =
     (let h = (if 0 \<le> e then m * 2 ^ nat e * 100 else round_half_even (m * 100) (2 ^ nat (- e)))
      in (if neg then ''-'' else '''') @ str_nat (h div 100) @ ''.''
         @ [digit_char (h mod 100 div 10), digit_char (h mod 10)])"
| "format_2f (Infinite neg) = (if neg then ''-inf'' else ''inf'')"
| "format_2f NaN = ''nan''"

text \<open>
  The value of a result cell is any Python object (a \<open>str\<close>, an \<open>int\<close>, a
  \<open>Decimal\<close>, a date, \<open>None\<close>, a float that pandas produced). The formatter
  does two things with it: it places it in an f-string, which gives \<open>py_str\<close>, and
  it calls \<open>float()\<close> on it, which gives a float or raises: \<open>py_float\<close>. An
  object is the record of these two results.
\<close>

record obj =
  py_str :: string
  py_float :: "exn + pyfloat"

text \<open>
  The argument of \<open>clean_response_text\<close> is any Python object as well; of it the
  function asks whether it is a \<open>str\<close>.
\<close>

datatype pyval = PNone | PStr string | PInt int | PBool bool | PBytes string

text \<open>
  A row of a result set is a \<open>dict\<close> from column names to values, in the order of
  the columns; a row that \<open>iterrows\<close> yields is a pandas \<open>Series\<close> with the
  column names as its index. Both are association lists. A data frame has its column
  names and, for every row, the cells in the order of the columns.
\<close>

type_synonym row = "(string \<times> obj) list"

record dataframe =
  columns :: "string list"
  data :: "obj list list"

definition iterrows :: "dataframe \<Rightarrow> row list" where
  "iterrows df = map (zip (columns df)) (data df)"

definition head :: "nat \<Rightarrow> dataframe \<Rightarrow> dataframe" where
  "head n df = df\<lparr>data := take n (data df)\<rparr>"

definition empty :: "dataframe \<Rightarrow> bool" where
  \<comment> \<open>\<open>df.empty\<close>: an axis of the frame has length 0\<close>
  "empty df = (columns df = [] \<or> data df = [])"

definition len :: "dataframe \<Rightarrow> nat" where
  \<comment> \<open>\<open>len(df)\<close>: the number of rows\<close>
  "len df = length (data df)"

definition has_key :: "string \<Rightarrow> row \<Rightarrow> bool" where
  \<comment> \<open>\<open>key in row\<close>\<close>
  "has_key key r = (map_of r key \<noteq> None)"

section \<open>The environment and the effects\<close>

text \<open>
  What one \<open>try\<close> block of \<open>execute_query\<close> obtains from the connection: the
  rows that \<open>fetchall\<close> returned, or the exception that \<open>cursor\<close>, \<open>execute\<close>
  or \<open>fetchall\<close> raised, with what \<open>conn.is_connected()\<close> answers afterwards.
  \<open>cursor.close()\<close> and \<open>conn.close()\<close> themselves are taken not to raise.
\<close>

datatype db_outcome = Fetched "row list" | Raised exn bool

text \<open>
  \<^item> \<open>today\<close>: \<open>datetime.now().strftime('%Y-%m-%d')\<close>;
  \<^item> \<open>generate_content n prompt\<close>: what \<open>self.model.generate_content(prompt)\<close>
    followed by \<open>response.text\<close> gives when it is the call number \<open>n\<close> (from 0)
    made to the model: the text, or the exception raised by either;
  \<^item> \<open>connect\<close>: whether \<open>mysql.connector.connect\<close> returns a connection or
    raises a \<open>mysql.connector.Error\<close>;
  \<^item> \<open>run_query sql\<close>: the outcome of running the statement on the connection;
  \<^item> \<open>DataFrame\<close>: \<open>pd.DataFrame(results)\<close>;
  \<^item> \<open>to_string\<close>: \<open>df.to_string(index=False)\<close>.
\<close>

record env =
  today :: string
  generate_content :: "nat \<Rightarrow> string \<Rightarrow> exn + string"
  connect :: "exn + unit"
  run_query :: "string \<Rightarrow> db_outcome"
  DataFrame :: "row list \<Rightarrow> dataframe"
  to_string :: "dataframe \<Rightarrow> string"

text \<open>
  \<^item> \<open>llm_log\<close>: the prompts sent to the model, oldest first;
  \<^item> \<open>db_log\<close>: the calls made to the database: a connection attempt, the
    statement handed to the cursor, \<open>conn.close()\<close>;
  \<^item> \<open>connected\<close>: whether the connection acquired last is connected;
  \<^item> \<open>st_errors\<close>: the messages shown with \<open>st.error\<close> by the methods of
    \<open>TShirtStoreAI\<close>.
\<close>

datatype db_event = Connect | Execute string | Close

record effects =
  llm_log :: "string list"
  db_log :: "db_event list"
  connected :: bool
  st_errors :: "string list"

section \<open>clean_response_text\<close>

fun clean_response_text :: "pyval \<Rightarrow> string" where
  "clean_response_text (PStr text) =
     (let text = re_sub_pair is_period is_upper text;
          text = re_sub_pair is_lower is_upper text;
          text = re_sub_digit_letter text
      in text)"
| "clean_response_text _ = ''''"

section \<open>TShirtStoreAI\<close>

definition get_db_connection :: "env \<Rightarrow> effects \<Rightarrow> bool \<times> effects" where
  \<comment> \<open>the result is whether a connection was returned (\<open>None\<close> otherwise)\<close>
  "get_db_connection e st =
     (let st = st\<lparr>db_log := db_log st @ [Connect]\<rparr>
      in case connect e of
           Inr _ \<Rightarrow> (True, st\<lparr>connected := True\<rparr>)
         | Inl (Exception msg) \<Rightarrow>
             (False, st\<lparr>st_errors := st_errors st @ [''Database connection failed: '' @ msg]\<rparr>))"

definition get_schema_info :: "env \<Rightarrow> string" where
  \<open>get_schema_info e = concat
     [''\<newline>'',
      ''        Database Schema:\<newline>'',
      ''        \<newline>'',
      ''        Table: inventory\<newline>'',
      ''        - id (INT, PRIMARY KEY), brand (VARCHAR), product_name (VARCHAR), size (ENUM), \<newline>'',
      ''        - color (VARCHAR), stock_quantity (INT), price_per_item (DECIMAL)\<newline>'',
      ''        \<newline>'',
      ''        Table: discounts\<newline>'',
      ''        - id (INT, PRIMARY KEY), brand (VARCHAR), product_name (VARCHAR), \<newline>'',
      ''        - discount_type (ENUM: 'percentage', 'fixed_amount'), discount_value (DECIMAL), \<newline>'',
      ''        - start_date (DATE), end_date (DATE), min_quantity (INT), is_active (BOOLEAN)\<newline>'',
      ''        \<newline>'',
      ''        Current date for all queries is: '', today e, ''\<newline>'',
      ''        '']\<close>

definition sql_prompt :: "env \<Rightarrow> string \<Rightarrow> string" where
  \<comment> \<open>the f-string \<open>prompt\<close> of \<open>natural_language_to_sql\<close>\<close>
  \<open>sql_prompt e question = concat
     [''\<newline>'',
      ''        You are a SQL expert for a t-shirt store database. Your goal is to convert a natural language question into a single, accurate SQL query.\<newline>'',
      ''        '', get_schema_info e, ''\<newline>'',
      ''        ---\<newline>'',
      ''        **CRITICAL RULES:**\<newline>'',
      ''        1.  **Always JOIN for Discounts:** If the question mentions "discount," "sale," or "price," you **MUST** JOIN `inventory` (aliased as `i`) with `discounts` (aliased as `d`) on `i.brand = d.brand`.\<newline>'',
      ''        2.  **Handle Minimum Quantity Correctly:** A user's question about a single item (e.g., "a nike shirt") implies a quantity of 1. If the discount in the database requires a `min_quantity` > 1, your query **MUST NOT** filter this discount out. The goal is to show that a discount *is available* but has conditions. Therefore, **DO NOT** add a `WHERE` clause that filters based on `min_quantity` unless the user explicitly states a quantity (e.g., "discount for 3 shirts").\<newline>'',
      ''        3.  **Filter by Active Discounts:** Always include this condition in your `WHERE` clause for discount-related queries: `d.is_active = TRUE AND CURDATE() BETWEEN d.start_date AND d.end_date`.\<newline>'',
      ''        4.  **Use LOWER() for Case-Insensitive Matches:** Always wrap text-based columns like `brand` or `color` in the `LOWER()` function in the `WHERE` clause for comparisons.\<newline>'',
      ''        5.  **Return Only the SQL Query:** Your entire response should be only the SQL code, with no explanations or markdown.\<newline>'',
      ''        ---\<newline>'',
      ''        Question: '', question, ''\<newline>'',
      ''        SQL Query:\<newline>'',
      ''        '']\<close>

definition natural_language_to_sql :: "env \<Rightarrow> string \<Rightarrow> effects \<Rightarrow> string \<times> effects" where
  "natural_language_to_sql e question st =
     (let prompt = sql_prompt e question;
          response = generate_content e (length (llm_log st)) prompt;
          st = st\<lparr>llm_log := llm_log st @ [prompt]\<rparr>
      in case response of
           Inr text \<Rightarrow>
             (let sql_query = strip text;
                  sql_query = re_sub_fence ''sql'' sql_query;
                  sql_query = re_sub_fence '''' sql_query;
                  sql_query = strip sql_query
              in (sql_query, st))
         | Inl (Exception msg) \<Rightarrow> (''Error generating SQL: '' @ msg, st))"

text \<open>
  The result of \<open>execute_query\<close> is the pair \<open>(results, error)\<close>, each of them
  \<open>None\<close> or a value. In the handler the connection is closed when it still is
  connected.
\<close>

definition execute_query ::
  "env \<Rightarrow> string \<Rightarrow> effects \<Rightarrow> (row list option \<times> string option) \<times> effects" where
  "execute_query e sql_query st =
     (let (conn, st) = get_db_connection e st
      in if \<not> conn then ((None, Some ''Database connection failed''), st)
         else
           (let st = st\<lparr>db_log := db_log st @ [Execute sql_query]\<rparr>
            in case run_query e sql_query of
                 Fetched results \<Rightarrow>
                   ((Some results, None), st\<lparr>db_log := db_log st @ [Close], connected := False\<rparr>)
               | Raised (Exception msg) is_connected \<Rightarrow>
                   (let st = st\<lparr>connected := is_connected\<rparr>;
                        st = (if connected st
                              then st\<lparr>db_log := db_log st @ [Close], connected := False\<rparr>
                              else st)
                    in ((None, Some msg), st))))"

text \<open>
  The separator of the details, as the source file holds it between the two spaces: the
  characters U+00E2, U+20AC and U+00A2.
\<close>

definition details_separator :: string where
  "details_separator =
     [CHR 0x20, CHR 0xC3, CHR 0xA2, CHR 0xE2, CHR 0x82, CHR 0xAC, CHR 0xC2, CHR 0xA2, CHR 0x20]"

text \<open>
  The loop \<open>for _, row in df.iterrows()\<close> of \<open>format_dataframe_simple\<close>, with
  \<open>result_text\<close> as its accumulator. \<open>float(row['price_per_item'])\<close> is the one
  call of the body that can raise; the exception leaves the loop and the function.
\<close>

fun iterrows_loop :: "string \<Rightarrow> row list \<Rightarrow> exn + string" where
  "iterrows_loop result_text [] = Inr result_text"
| "iterrows_loop result_text (r # rows) =
     (if has_key ''brand'' r \<and> has_key ''product_name'' r then
        (let result_text = result_text
               @ ''**'' @ (case map_of r ''brand'' of Some v \<Rightarrow> py_str v | None \<Rightarrow> ''N/A'')
               @ '' - '' @ (case map_of r ''product_name'' of Some v \<Rightarrow> py_str v | None \<Rightarrow> ''N/A'')
               @ ''**\<newline>''
         in case (case map_of r ''price_per_item'' of
                    None \<Rightarrow> Inr None
                  | Some v \<Rightarrow>
                      (case py_float v of
                         Inl x \<Rightarrow> Inl x
                       | Inr f \<Rightarrow> Inr (Some (''Price: $'' @ format_2f f)))) of
              Inl x \<Rightarrow> Inl x
            | Inr price \<Rightarrow>
               (let details =
                      [case map_of r ''size'' of
                         None \<Rightarrow> None | Some v \<Rightarrow> Some (''Size: '' @ py_str v),
                       case map_of r ''color'' of
                         None \<Rightarrow> None | Some v \<Rightarrow> Some (''Color: '' @ py_str v),
                       price,
                       case map_of r ''stock_quantity'' of
                         None \<Rightarrow> None | Some v \<Rightarrow> Some (''Stock: '' @ py_str v @ '' units'')];
                    result_text = result_text
                       @ join details_separator [d. Some d \<leftarrow> details, d \<noteq> '''']
                       @ ''\<newline>\<newline>''
                in iterrows_loop result_text rows))
      else
        (let result_text = result_text
               @ join '' | '' (map (\<lambda>(col, val). col @ '': '' @ py_str val) r)
               @ ''\<newline>\<newline>''
         in iterrows_loop result_text rows))"

definition format_dataframe_simple :: "dataframe \<Rightarrow> exn + string" where
  "format_dataframe_simple df =
     (if empty df then Inr ''No results found.''
      else
        (let result_text = ''Found '' @ str_nat (len df) @ '' results:\<newline>\<newline>''
         in iterrows_loop result_text (iterrows df)))"

definition response_prompt :: "env \<Rightarrow> string \<Rightarrow> dataframe \<Rightarrow> string" where
  \<comment> \<open>the f-string \<open>response_prompt\<close> of \<open>format_response\<close>\<close>
  \<open>response_prompt e question df = concat
     [''\<newline>'',
      ''        Based on this database query result, provide a natural, conversational response to the original question.\<newline>'',
      ''        Original question: '', question, ''\<newline>'',
      ''        Query results: '', to_string e (head 10 df), ''\<newline>'',
      ''        \<newline>'',
      ''        Make the response:\<newline>'',
      ''        1. Conversational and helpful.\<newline>'',
      ''        2. If the query result contains a 'min_quantity' greater than 1, explain that condition to the user (e.g., "This discount applies if you buy X or more items.").\<newline>'',
      ''        3. Summarize the results clearly. Use bullet points for lists of items.\<newline>'',
      ''        4. Ensure correct grammar, punctuation, and spacing between sentences.\<newline>'',
      ''        5. Use proper currency formatting ($XX.XX).\<newline>'',
      ''        \<newline>'',
      ''        Response:\<newline>'',
      ''        '']\<close>

text \<open>
  \<open>if error:\<close> holds for a string that is not empty; \<open>if not results:\<close> holds
  for \<open>None\<close> and for the empty list. The patterns \<open>Some (c # msg)\<close> and
  \<open>Some (r # rows)\<close> are the two truth tests.
\<close>

definition format_response ::
  "env \<Rightarrow> string \<Rightarrow> row list option \<Rightarrow> string option \<Rightarrow> effects \<Rightarrow> (exn + string) \<times> effects" where
  "format_response e question results error st =
     (case error of
        Some (c # msg) \<Rightarrow>
          (Inr (''I apologize, but I encountered an error processing your question: '' @ c # msg), st)
      | _ \<Rightarrow>
          (case results of
             Some (r # rows) \<Rightarrow>
               (let df = DataFrame e (r # rows);
                    prompt = response_prompt e question df;
                    response = generate_content e (length (llm_log st)) prompt;
                    st = st\<lparr>llm_log := llm_log st @ [prompt]\<rparr>
                in case response of
                     Inr text \<Rightarrow> (Inr (clean_response_text (PStr (strip text))), st)
                   | Inl _ \<Rightarrow> (format_dataframe_simple df, st))
           | _ \<Rightarrow> (Inr ''I couldn't find any matching results for your question.'', st)))"

section \<open>The handler of the "Get Answer" button\<close>

text \<open>
  What \<open>main\<close> shows for a question: \<open>st.warning\<close> for an empty question,
  \<open>st.error\<close> with the translator's string when that starts with \<open>Error\<close>,
  and otherwise \<open>st.success\<close> with the response, together with the generated SQL
  and the raw results of the technical details.
\<close>

datatype display =
    Warning string
  | Error string
  | Answer string string "row list option"

fun display_text :: "display \<Rightarrow> string" where
  "display_text (Warning t) = t"
| "display_text (Error t) = t"
| "display_text (Answer t sql_query results) = t"

definition main_get_answer :: "env \<Rightarrow> string \<Rightarrow> effects \<Rightarrow> (exn + display) \<times> effects" where
  "main_get_answer e question st =
     (if question = '''' then (Inr (Warning ''Please enter a question!''), st)
      else
        (let (sql_query, st) = natural_language_to_sql e question st
         in if prefix ''Error'' sql_query then (Inr (Error sql_query), st)
            else
              (let ((results, error), st) = execute_query e sql_query st;
                   (response, st) = format_response e question results error st
               in case response of
                    Inl x \<Rightarrow> (Inl x, st)
                  | Inr text \<Rightarrow> (Inr (Answer text sql_query results), st))))"

section \<open>Predicates used in the statements\<close>

text \<open>\<open>has_pair p q s\<close>: somewhere in \<open>s\<close> the pattern \<open>(P)(Q)\<close> matches.\<close>

fun has_pair :: "(char \<Rightarrow> bool) \<Rightarrow> (char \<Rightarrow> bool) \<Rightarrow> string \<Rightarrow> bool" where
  "has_pair p q (a # b # s) = ((p a \<and> q b) \<or> has_pair p q (b # s))"
| "has_pair p q s = False"

text \<open>
  \<open>match_at s\<close>: the pattern \<open>(\d)([a-zA-Z])\<close> matches at the start of
  \<open>s\<close>; \<open>has_digit_letter s\<close>: it matches somewhere in \<open>s\<close>.
  \<open>spaced s t\<close>: \<open>t\<close> is \<open>s\<close> with spaces inserted.
\<close>

definition match_at :: "string \<Rightarrow> bool" where
  "match_at s =
     (let n = digit_len s
      in 0 < n \<and> (case drop n s of b # rest \<Rightarrow> is_letter b | [] \<Rightarrow> False))"

fun has_digit_letter :: "string \<Rightarrow> bool" where
  "has_digit_letter [] = False"
| "has_digit_letter (a # s) = (match_at (a # s) \<or> has_digit_letter s)"

inductive spaced :: "string \<Rightarrow> string \<Rightarrow> bool" where
  spaced_Nil: "spaced [] []"
| spaced_Cons: "spaced s t \<Longrightarrow> spaced (a # s) (a # t)"
| spaced_space: "spaced s t \<Longrightarrow> spaced s (CHR '' '' # t)"

text \<open>\<open>has_fence s\<close>: three backticks in a row stand somewhere in \<open>s\<close>.\<close>

fun has_fence :: "string \<Rightarrow> bool" where
  "has_fence (a # b # c # s) =
     ((a = backtick \<and> b = backtick \<and> c = backtick) \<or> has_fence (b # c # s))"
| "has_fence s = False"

text \<open>A string starts, or ends, with a white-space character.\<close>

definition leading_space :: "string \<Rightarrow> bool" where
  "leading_space s = (\<exists>w \<in> set whitespace. prefix w s)"

definition trailing_space :: "string \<Rightarrow> bool" where
  "trailing_space s = (\<exists>w \<in> set whitespace. suffix w s)"

text \<open>
  The text of one row as the fallback formatter is described: the labelled summary
  for a row with the keys \<open>brand\<close> and \<open>product_name\<close>, the join of
  \<open>col: val\<close> over all fields for any other row. \<open>price_converts\<close> says
  that \<open>float()\<close> accepts the price of the row, when it has one.
\<close>

definition price_converts :: "row \<Rightarrow> bool" where
  "price_converts r =
     (case map_of r ''price_per_item'' of
        None \<Rightarrow> True
      | Some v \<Rightarrow> (case py_float v of Inl x \<Rightarrow> False | Inr f \<Rightarrow> True))"

definition labeled_summary :: "row \<Rightarrow> string" where
  "labeled_summary r =
     ''**'' @ (case map_of r ''brand'' of Some v \<Rightarrow> py_str v | None \<Rightarrow> ''N/A'')
     @ '' - '' @ (case map_of r ''product_name'' of Some v \<Rightarrow> py_str v | None \<Rightarrow> ''N/A'')
     @ ''**\<newline>''
     @ join details_separator
         ((case map_of r ''size'' of None \<Rightarrow> [] | Some v \<Rightarrow> [''Size: '' @ py_str v])
          @ (case map_of r ''color'' of None \<Rightarrow> [] | Some v \<Rightarrow> [''Color: '' @ py_str v])
          @ (case map_of r ''price_per_item'' of
               None \<Rightarrow> []
             | Some v \<Rightarrow> (case py_float v of Inl x \<Rightarrow> [] | Inr f \<Rightarrow> [''Price: $'' @ format_2f f]))
          @ (case map_of r ''stock_quantity'' of
               None \<Rightarrow> [] | Some v \<Rightarrow> [''Stock: '' @ py_str v @ '' units'']))
     @ ''\<newline>\<newline>''"

definition generic_join :: "row \<Rightarrow> string" where
  "generic_join r =
     join '' | '' (map (\<lambda>(col, val). col @ '': '' @ py_str val) r) @ ''\<newline>\<newline>''"

definition row_text :: "row \<Rightarrow> string" where
  "row_text r =
     (if has_key ''brand'' r \<and> has_key ''product_name'' r then labeled_summary r
      else generic_join r)"

section \<open>Example environments\<close>

text \<open>
  Stand-ins for the collaborators, used to run the pipeline on concrete inputs:
  a data-frame constructor for rows that all have the columns of the first one, a
  rendering of a frame with one line per row, and an environment built from a model, a
  connection result and a database.
\<close>

definition frame_of_rows :: "row list \<Rightarrow> dataframe" where
  "frame_of_rows rs =
     \<lparr>columns = (case rs of [] \<Rightarrow> [] | r # _ \<Rightarrow> map fst r), data = map (map snd) rs\<rparr>"

definition example_env ::
  "(nat \<Rightarrow> string \<Rightarrow> exn + string) \<Rightarrow> exn + unit \<Rightarrow> (string \<Rightarrow> db_outcome) \<Rightarrow> env" where
  "example_env model conn db =
     \<lparr>today = ''2025-01-31'', generate_content = model, connect = conn, run_query = db,
      DataFrame = frame_of_rows,
      to_string = (\<lambda>df. join ''\<newline>'' (map (join '' '' \<circ> map py_str) (data df)))\<rparr>"

definition no_effects :: effects where
  "no_effects = \<lparr>llm_log = [], db_log = [], connected = False, st_errors = []\<rparr>"

text \<open>
  The row of the specification's example. Its first four values are strings that
  \<open>float()\<close> rejects; the price is the float 19.5, which is \<open>39 * 2 ^ (-1)\<close>,
  and the stock the integer 3.
\<close>

definition nike_row :: row where
  "nike_row =
     [(''brand'', \<lparr>py_str = ''Nike'', py_float = Inl (Exception ''could not convert string to float'')\<rparr>),
      (''product_name'', \<lparr>py_str = ''Tee'', py_float = Inl (Exception ''could not convert string to float'')\<rparr>),
      (''size'', \<lparr>py_str = ''L'', py_float = Inl (Exception ''could not convert string to float'')\<rparr>),
      (''color'', \<lparr>py_str = ''Black'', py_float = Inl (Exception ''could not convert string to float'')\<rparr>),
      (''price_per_item'', \<lparr>py_str = ''19.5'', py_float = Inr (Finite False 39 (- 1))\<rparr>),
      (''stock_quantity'', \<lparr>py_str = ''3'', py_float = Inr (Finite False 3 0)\<rparr>)]"

definition nike_frame :: dataframe where
  "nike_frame = frame_of_rows [nike_row]"

text \<open>
  Two rows of one result set: the price of the first is the \<open>Decimal\<close> 24.50,
  the price of the second is \<open>NULL\<close>, which the connector returns as
  \<open>None\<close>; \<open>float(None)\<close> raises a \<open>TypeError\<close>.
\<close>

definition float_of_none :: exn where
  \<open>float_of_none =
     Exception (''float() argument must be a string or a real number, not 'NoneType'' @ [CHR 0x27])\<close>

definition priced_row :: row where
  "priced_row =
     [(''brand'', \<lparr>py_str = ''Adidas'', py_float = Inl (Exception ''could not convert string to float'')\<rparr>),
      (''product_name'', \<lparr>py_str = ''Polo'', py_float = Inl (Exception ''could not convert string to float'')\<rparr>),
      (''price_per_item'', \<lparr>py_str = ''24.50'', py_float = Inr (Finite False 49 (- 1))\<rparr>)]"

definition null_price_row :: row where
  "null_price_row =
     [(''brand'', \<lparr>py_str = ''Puma'', py_float = Inl (Exception ''could not convert string to float'')\<rparr>),
      (''product_name'', \<lparr>py_str = ''Tank'', py_float = Inl (Exception ''could not convert string to float'')\<rparr>),
      (''price_per_item'', \<lparr>py_str = ''None'', py_float = Inl float_of_none\<rparr>)]"

text \<open>
  Two environments in which the translation succeeds and the database returns the row
  of the example. In the first the model answers the formatting prompt with a single
  space; in the second the formatting call raises.
\<close>

definition blank_reply_env :: env where
  "blank_reply_env =
     example_env (\<lambda>n prompt. if n = 0 then Inr ''SELECT * FROM inventory'' else Inr '' '')
       (Inr ()) (\<lambda>sql. Fetched [nike_row])"

definition fallback_env :: env where
  "fallback_env =
     example_env (\<lambda>n prompt. if n = 0 then Inr ''SELECT * FROM inventory''
                             else Inl (Exception ''429 quota exceeded''))
       (Inr ()) (\<lambda>sql. Fetched [nike_row])"

text \<open>
  An environment in which the connection is acquired and then lost while the statement
  runs: the cursor raises, and \<open>conn.is_connected()\<close> answers false.
\<close>

definition lost_connection_env :: env where
  "lost_connection_env =
     example_env (\<lambda>n prompt. Inr ''SELECT * FROM inventory'') (Inr ())
       (\<lambda>sql. Raised (Exception ''Lost connection to MySQL server during query'') False)"

section \<open>The spacing rules\<close>

lemma re_sub_pair_hd: "\<exists>t. re_sub_pair p q (b # s) = b # t"
  by (cases s) auto

lemma re_sub_pair_fix: "\<not> has_pair p q s \<Longrightarrow> re_sub_pair p q s = s"
  by (induction p q s rule: re_sub_pair.induct) auto

text \<open>
  One pass leaves no match of its own pattern, when no character is in both classes
  on the right and the left and a space is in neither.
\<close>

lemma re_sub_pair_clears:
  assumes "\<And>c. q c \<Longrightarrow> \<not> p c" and "\<not> p (CHR '' '')" and "\<not> q (CHR '' '')"
  shows "\<not> has_pair p q (re_sub_pair p q s)"
  using assms
proof (induction p q s rule: re_sub_pair.induct)
  case (1 p q a b s)
  show ?case
  proof (cases "p a \<and> q b")
    case True
    have nb: "\<not> p b" using True 1 by blast
    from 1 True have ih: "\<not> has_pair p q (re_sub_pair p q s)" by blast
    show ?thesis
    proof (cases s)
      case Nil
      then show ?thesis using True 1 nb by simp
    next
      case (Cons c s')
      obtain t where t: "re_sub_pair p q (c # s') = c # t" using re_sub_pair_hd by blast
      show ?thesis using True 1 nb ih t Cons by simp
    qed
  next
    case False
    obtain t where t: "re_sub_pair p q (b # s) = b # t" using re_sub_pair_hd by blast
    from 1 False have ih: "\<not> has_pair p q (re_sub_pair p q (b # s))" by blast
    show ?thesis using False ih t by auto
  qed
qed simp_all

text \<open>A pass inserts spaces only, so it creates no match of another pattern.\<close>

lemma re_sub_pair_keeps:
  assumes "\<not> p' (CHR '' '')" and "\<not> q' (CHR '' '')" and "\<not> has_pair p' q' s"
  shows "\<not> has_pair p' q' (re_sub_pair p q s)"
  using assms
proof (induction p q s rule: re_sub_pair.induct)
  case (1 p q a b s)
  show ?case
  proof (cases "p a \<and> q b")
    case True
    show ?thesis
    proof (cases s)
      case Nil
      then show ?thesis using True 1 by simp
    next
      case (Cons c s')
      obtain t where t: "re_sub_pair p q (c # s') = c # t" using re_sub_pair_hd by blast
      have "\<not> has_pair p' q' (c # s')" using 1(5) Cons by simp
      then have "\<not> has_pair p' q' (re_sub_pair p q s)" using 1 True Cons by blast
      then show ?thesis using True 1(3,4,5) t Cons by simp
    qed
  next
    case False
    obtain t where t: "re_sub_pair p q (b # s) = b # t" using re_sub_pair_hd by blast
    have "\<not> has_pair p' q' (b # s)" using 1(5) by simp
    then have ih: "\<not> has_pair p' q' (re_sub_pair p q (b # s))" using 1 False by blast
    show ?thesis using False ih t 1(5) by auto
  qed
qed simp_all

lemma space_in_no_class:
  "\<not> is_period (CHR '' '')" "\<not> is_upper (CHR '' '')" "\<not> is_lower (CHR '' '')"
  "\<not> is_letter (CHR '' '')"
  by (simp_all add: is_period_def is_upper_def is_lower_def is_letter_def)

lemma classes_disjoint:
  "is_upper c \<Longrightarrow> \<not> is_period c" "is_upper c \<Longrightarrow> \<not> is_lower c"
  by (auto simp add: is_period_def is_upper_def is_lower_def is_letter_def Let_def)

section \<open>The rule for a digit before a letter\<close>

lemma re_sub_digit_letter_Cons:
  "re_sub_digit_letter (a # s) =
     (if match_at (a # s)
      then take (digit_len (a # s)) (a # s) @ CHR '' '' # hd (drop (digit_len (a # s)) (a # s))
             # re_sub_digit_letter (tl (drop (digit_len (a # s)) (a # s)))
      else a # re_sub_digit_letter s)"
  by (auto simp add: re_sub_digit_letter.simps(2) match_at_def Let_def split: list.splits)

lemma digit_len_cont: "is_cont c \<Longrightarrow> digit_len (c # s) = 0"
  by (auto simp add: digit_len_def utf8_len_def is_cont_def Let_def)

lemma digit_len_letter: "is_letter c \<Longrightarrow> digit_len (c # s) = 0"
  by (auto simp add: digit_len_def utf8_len_def is_letter_def is_lower_def is_upper_def
        is_decimal_def Let_def)

lemma digit_len_space: "digit_len (CHR '' '' # s) = 0"
  by (simp add: digit_len_def utf8_len_def is_decimal_def Let_def)

lemma digit_len_le: "digit_len s \<le> length s"
  by (cases s) (auto simp add: digit_len_def Let_def)

lemma digit_len_tail:
  "0 < digit_len (a # r) \<Longrightarrow> list_all is_cont (take (digit_len (a # r) - 1) r)"
  by (auto simp add: digit_len_def Let_def split: if_splits)

lemma digit_len_prefix:
  assumes "0 < digit_len s" and "take (digit_len s) s' = take (digit_len s) s"
  shows "digit_len s' = digit_len s"
proof -
  obtain a r where s: "s = a # r" using assms(1) by (cases s) (auto simp add: digit_len_def)
  obtain m where m: "digit_len s = Suc m" using assms(1) by (cases "digit_len s") auto
  have u: "utf8_len a = Suc m"
    using m unfolding s by (auto simp add: digit_len_def Let_def split: if_splits)
  have c: "list_all is_cont (take m r)"
    using m u unfolding s by (auto simp add: digit_len_def Let_def split: if_splits)
  have d: "is_decimal (code_point (take (Suc m) (a # r)))"
    using m u unfolding s by (auto simp add: digit_len_def Let_def split: if_splits)
  have l: "Suc m \<le> length s" using digit_len_le [of s] m by simp
  have tk: "take (Suc m) s' = take (Suc m) s" using assms(2) m by simp
  then have "length (take (Suc m) s') = Suc m" using l by simp
  then have len: "Suc m \<le> length s'" by simp
  then obtain a' r' where s': "s' = a' # r'" by (cases s') auto
  have e: "a' = a" "take m r' = take m r" using tk s s' by simp_all
  have "digit_len (a # r') = Suc m"
    using u c d len e(2) unfolding s' e(1) by (simp add: digit_len_def Let_def)
  then show ?thesis using m s' e(1) by simp
qed

lemma re_sub_digit_letter_hd: "\<exists>t. re_sub_digit_letter (b # s) = b # t"
proof (cases "match_at (b # s)")
  case True
  then have "0 < digit_len (b # s)" by (simp add: match_at_def Let_def)
  then obtain m where "digit_len (b # s) = Suc m" by (cases "digit_len (b # s)") auto
  then show ?thesis using True by (simp add: re_sub_digit_letter_Cons)
next
  case False
  then show ?thesis by (simp add: re_sub_digit_letter_Cons)
qed

lemma re_sub_digit_letter_Nil_iff: "re_sub_digit_letter s = [] \<longleftrightarrow> s = []"
proof (cases s)
  case Nil
  then show ?thesis by simp
next
  case (Cons a r)
  obtain t where "re_sub_digit_letter (a # r) = a # t"
    using re_sub_digit_letter_hd by blast
  then show ?thesis using Cons by simp
qed

lemma match_at_cont: "is_cont c \<Longrightarrow> \<not> match_at (c # s)"
  by (simp add: match_at_def digit_len_cont)

lemma re_sub_digit_letter_cont:
  "is_cont c \<Longrightarrow> re_sub_digit_letter (c # s) = c # re_sub_digit_letter s"
  by (simp add: re_sub_digit_letter_Cons match_at_cont)

text \<open>Continuation bytes at the front of the result stood at the front of the argument.\<close>

lemma re_sub_digit_letter_take_cont:
  "list_all is_cont (take k (re_sub_digit_letter s)) \<Longrightarrow>
   take k (re_sub_digit_letter s) = take k s
   \<and> drop k (re_sub_digit_letter s) = re_sub_digit_letter (drop k s)"
proof (induction k arbitrary: s)
  case 0
  then show ?case by simp
next
  case (Suc k)
  show ?case
  proof (cases s)
    case Nil
    then show ?thesis by simp
  next
    case (Cons c s')
    obtain t where t: "re_sub_digit_letter (c # s') = c # t"
      using re_sub_digit_letter_hd by blast
    then have "is_cont c" using Suc.prems Cons by simp
    then have eq: "re_sub_digit_letter (c # s') = c # re_sub_digit_letter s'"
      by (rule re_sub_digit_letter_cont)
    then have "list_all is_cont (take k (re_sub_digit_letter s'))"
      using Suc.prems Cons by simp
    then show ?thesis using Suc.IH [of s'] eq Cons by simp
  qed
qed

lemma match_at_re_sub:
  assumes "match_at (a # re_sub_digit_letter s)"
  shows "match_at (a # s)"
proof -
  define t where "t = re_sub_digit_letter s"
  define n where "n = digit_len (a # t)"
  have n: "0 < n" using assms by (simp add: match_at_def Let_def n_def t_def)
  then obtain m where m: "n = Suc m" by (cases n) auto
  obtain b rest where d: "drop n (a # t) = b # rest" "is_letter b"
    using assms unfolding match_at_def Let_def n_def t_def by (auto split: list.splits)
  have "list_all is_cont (take m t)"
    using digit_len_tail [of a t] n m by (simp add: n_def)
  then have q: "take m t = take m s" "drop m t = re_sub_digit_letter (drop m s)"
    using re_sub_digit_letter_take_cont [of m s] by (simp_all add: t_def)
  have "take n (a # s) = take n (a # t)" using q m by simp
  then have dl: "digit_len (a # s) = n"
    using digit_len_prefix [of "a # t" "a # s"] n by (simp add: n_def)
  have r: "re_sub_digit_letter (drop m s) = b # rest" using d q m by simp
  have "\<exists>rest'. drop m s = b # rest'"
  proof (cases "drop m s")
    case Nil
    then show ?thesis using r by simp
  next
    case (Cons c r')
    obtain u where "re_sub_digit_letter (c # r') = c # u"
      using re_sub_digit_letter_hd by blast
    then show ?thesis using r Cons by simp
  qed
  then obtain rest' where "drop m s = b # rest'" by blast
  then have "drop n (a # s) = b # rest'" using m by simp
  then show ?thesis using dl n d by (simp add: match_at_def Let_def)
qed

lemma has_digit_letter_cont:
  "list_all is_cont cs \<Longrightarrow> has_digit_letter (cs @ w) = has_digit_letter w"
  by (induction cs) (simp_all add: match_at_cont)

lemma re_sub_digit_letter_clears: "\<not> has_digit_letter (re_sub_digit_letter s)"
proof (induction s rule: length_induct)
  case (1 s)
  show ?case
  proof (cases s)
    case Nil
    then show ?thesis by simp
  next
    case (Cons a r)
    show ?thesis
    proof (cases "match_at (a # r)")
      case False
      have "\<not> has_digit_letter (re_sub_digit_letter r)" using 1 Cons by simp
      moreover have "\<not> match_at (a # re_sub_digit_letter r)"
        using False match_at_re_sub by blast
      ultimately show ?thesis using False Cons by (simp add: re_sub_digit_letter_Cons)
    next
      case True
      define n where "n = digit_len (a # r)"
      have n: "0 < n" using True by (simp add: match_at_def Let_def n_def)
      then obtain m where m: "n = Suc m" by (cases n) auto
      obtain b rest where d: "drop n (a # r) = b # rest" "is_letter b"
        using True unfolding match_at_def Let_def n_def by (auto split: list.splits)
      define t where "t = re_sub_digit_letter rest"
      have "length rest < length s"
      proof -
        have "length (drop n (a # r)) \<le> length (a # r)" by simp
        then show ?thesis using d Cons by simp
      qed
      then have ih: "\<not> has_digit_letter t" using 1 by (simp add: t_def)
      have cs: "list_all is_cont (take m r)"
        using digit_len_tail [of a r] n m by (simp add: n_def)
      have out: "re_sub_digit_letter (a # r) = a # take m r @ CHR '' '' # b # t"
        using True d m by (simp add: re_sub_digit_letter_Cons n_def [symmetric] t_def)
      have mr: "m \<le> length r"
      proof -
        have "digit_len (a # r) \<le> length (a # r)" by (rule digit_len_le)
        then have "n \<le> Suc (length r)" unfolding n_def by simp
        then show ?thesis using m by arith
      qed
      have "take n (a # take m r @ CHR '' '' # b # t) = take n (a # r)"
        using m mr by simp
      then have "digit_len (a # take m r @ CHR '' '' # b # t) = n"
        using digit_len_prefix [of "a # r" "a # take m r @ CHR '' '' # b # t"] n
        by (simp add: n_def)
      moreover have "length (take m r) = m"
        using mr by simp
      ultimately have no0: "\<not> match_at (a # take m r @ CHR '' '' # b # t)"
        using m by (simp add: match_at_def Let_def is_letter_def is_lower_def is_upper_def)
      have "\<not> has_digit_letter (CHR '' '' # b # t)"
        using ih d(2) by (simp add: match_at_def digit_len_space digit_len_letter)
      then have "\<not> has_digit_letter (take m r @ CHR '' '' # b # t)"
        using cs by (simp add: has_digit_letter_cont)
      then show ?thesis using no0 out Cons by simp
    qed
  qed
qed

lemma re_sub_digit_letter_fix: "\<not> has_digit_letter s \<Longrightarrow> re_sub_digit_letter s = s"
  by (induction s) (simp_all add: re_sub_digit_letter_Cons)

lemma spaced_refl: "spaced s s"
  by (induction s) (auto intro: spaced.intros)

lemma spaced_append: "spaced s t \<Longrightarrow> spaced (u @ s) (u @ t)"
  by (induction u) (auto intro: spaced.intros)

lemma spaced_length: "spaced s t \<Longrightarrow> length s \<le> length t"
  by (induction rule: spaced.induct) auto

lemma spaced_re_sub_digit_letter: "spaced s (re_sub_digit_letter s)"
proof (induction s rule: length_induct)
  case (1 s)
  show ?case
  proof (cases s)
    case Nil
    then show ?thesis by (simp add: spaced_Nil)
  next
    case (Cons a r)
    show ?thesis
    proof (cases "match_at (a # r)")
      case False
      have "spaced r (re_sub_digit_letter r)" using 1 Cons by simp
      then show ?thesis using False Cons by (simp add: re_sub_digit_letter_Cons spaced_Cons)
    next
      case True
      define n where "n = digit_len (a # r)"
      obtain b rest where d: "drop n (a # r) = b # rest"
        using True unfolding match_at_def Let_def n_def by (auto split: list.splits)
      have "length (drop n (a # r)) \<le> length (a # r)" by simp
      then have "length rest < length s" using d Cons by simp
      then have "spaced rest (re_sub_digit_letter rest)" using 1 by simp
      then have "spaced (b # rest) (CHR '' '' # b # re_sub_digit_letter rest)"
        by (intro spaced_space spaced_Cons)
      then have "spaced (take n (a # r) @ b # rest)
                   (take n (a # r) @ CHR '' '' # b # re_sub_digit_letter rest)"
        by (rule spaced_append)
      moreover have "take n (a # r) @ b # rest = a # r"
        using d append_take_drop_id [of n "a # r"] by simp
      ultimately show ?thesis
        using True d Cons by (simp add: re_sub_digit_letter_Cons n_def [symmetric])
    qed
  qed
qed

lemma has_pair_Cons: "has_pair p q s \<Longrightarrow> has_pair p q (a # s)"
  by (cases s) auto

lemma spaced_has_pair:
  assumes "spaced s t" and "\<not> p (CHR '' '')" and "\<not> q (CHR '' '')" and "has_pair p q t"
  shows "has_pair p q s"
  using assms
proof (induction rule: spaced.induct)
  case spaced_Nil
  then show ?case by simp
next
  case (spaced_Cons s t a)
  show ?case
  proof (cases t)
    case Nil
    then show ?thesis using spaced_Cons.prems by simp
  next
    case (Cons b t')
    show ?thesis
    proof (cases "p a \<and> q b")
      case True
      then have "b \<noteq> CHR '' ''" using spaced_Cons.prems by auto
      then obtain s' where "s = b # s'"
        using spaced_Cons.hyps Cons by (auto elim: spaced.cases)
      then show ?thesis using True by simp
    next
      case False
      then have "has_pair p q t" using spaced_Cons.prems Cons by auto
      then have "has_pair p q s" using spaced_Cons by simp
      then show ?thesis by (rule has_pair_Cons)
    qed
  qed
next
  case (spaced_space s t)
  have "has_pair p q t"
    using spaced_space.prems by (cases t) auto
  then show ?case using spaced_space by simp
qed

section \<open>Code fences and white space\<close>

lemma has_fence_sublist: "has_fence s \<longleftrightarrow> sublist [backtick, backtick, backtick] s"
proof (induction s rule: has_fence.induct)
  case (1 a b c s)
  have "sublist [backtick, backtick, backtick] (a # b # c # s) \<longleftrightarrow>
        prefix [backtick, backtick, backtick] (a # b # c # s)
        \<or> sublist [backtick, backtick, backtick] (b # c # s)"
    by (simp add: sublist_Cons_right)
  then show ?case using 1 by auto
qed (auto simp add: sublist_Cons_right)

lemma re_sub_fence_other:
  "c \<noteq> backtick \<Longrightarrow> re_sub_fence tag (c # s) = c # re_sub_fence tag s"
proof (cases s)
  case Nil
  then show ?thesis by simp
next
  case (Cons d s')
  assume c: "c \<noteq> backtick"
  show ?thesis
  proof (cases s')
    case Nil
    then show ?thesis using Cons by simp
  next
    case (Cons e s'')
    then show ?thesis using \<open>s = d # s'\<close> c by simp
  qed
qed

lemma re_sub_fence_other2:
  "c \<noteq> backtick \<Longrightarrow> re_sub_fence tag (b # c # s) = b # c # re_sub_fence tag s"
proof (cases s)
  case Nil
  then show ?thesis by simp
next
  case (Cons d s')
  assume c: "c \<noteq> backtick"
  then show ?thesis using Cons re_sub_fence_other [OF c, of tag "d # s'"] by simp
qed

lemma re_sub_fence_clears: "tag = [] \<Longrightarrow> \<not> has_fence (re_sub_fence tag s)"
proof (induction tag s rule: re_sub_fence.induct)
  case (1 tag a b c s)
  show ?case
  proof (cases "a = backtick \<and> b = backtick \<and> c = backtick")
    case True
    then show ?thesis using 1 by simp
  next
    case False
    have ih: "\<not> has_fence (re_sub_fence tag (b # c # s))" using 1 False by simp
    have eq: "re_sub_fence tag (a # b # c # s) = a # re_sub_fence tag (b # c # s)"
      using False by auto
    show ?thesis
    proof (cases "a = backtick")
      case na: False
      obtain r where "re_sub_fence tag (b # c # s) = r" by simp
      show ?thesis using eq ih na by (cases "re_sub_fence tag (b # c # s)" rule: has_fence.cases) auto
    next
      case a: True
      show ?thesis
      proof (cases "b = backtick")
        case nb: False
        have "re_sub_fence tag (b # c # s) = b # re_sub_fence tag (c # s)"
          using nb by (rule re_sub_fence_other)
        then show ?thesis using eq ih nb
          by (cases "re_sub_fence tag (c # s)") auto
      next
        case b: True
        then have nc: "c \<noteq> backtick" using False a by simp
        have "re_sub_fence tag (b # c # s) = b # c # re_sub_fence tag s"
          using nc by (rule re_sub_fence_other2)
        then show ?thesis using eq ih nc by auto
      qed
    qed
  qed
qed simp_all

lemma strip_prefixes_suffix: "suffix (strip_prefixes ws s) s"
proof (induction ws s rule: strip_prefixes.induct)
  case (1 ws s)
  show ?case
  proof (cases "find (\<lambda>w. w \<noteq> [] \<and> prefix w s) ws")
    case None
    then show ?thesis by (simp add: strip_prefixes.simps [of ws s])
  next
    case (Some w)
    have "suffix (strip_prefixes ws (drop (length w) s)) (drop (length w) s)"
      using 1 Some by simp
    moreover have "suffix (drop (length w) s) s" by (rule suffix_drop)
    ultimately have "suffix (strip_prefixes ws (drop (length w) s)) s"
      by (rule suffix_order.trans)
    then show ?thesis using Some by (simp add: strip_prefixes.simps [of ws s])
  qed
qed

lemma strip_prefixes_done:
  "find (\<lambda>w. w \<noteq> [] \<and> prefix w (strip_prefixes ws s)) ws = None"
proof (induction ws s rule: strip_prefixes.induct)
  case (1 ws s)
  show ?case
  proof (cases "find (\<lambda>w. w \<noteq> [] \<and> prefix w s) ws")
    case None
    then show ?thesis by (simp add: strip_prefixes.simps [of ws s])
  next
    case (Some w)
    then show ?thesis using 1 by (simp add: strip_prefixes.simps [of ws s])
  qed
qed

lemma whitespace_nonempty: "[] \<notin> set whitespace"
  by (simp add: whitespace_def)

lemma lstrip_no_leading: "\<not> leading_space (lstrip s)"
  using strip_prefixes_done [of whitespace s] whitespace_nonempty
  by (auto simp add: leading_space_def lstrip_def find_None_iff)

lemma rstrip_no_trailing: "\<not> trailing_space (rstrip s)"
proof
  assume "trailing_space (rstrip s)"
  then obtain w where w: "w \<in> set whitespace" "suffix w (rstrip s)"
    by (auto simp add: trailing_space_def)
  then have "prefix (rev w) (strip_prefixes (map rev whitespace) (rev s))"
    by (simp add: rstrip_def suffix_to_prefix)
  moreover have "rev w \<in> set (map rev whitespace)" "rev w \<noteq> []"
    using w whitespace_nonempty by auto
  ultimately show False
    using strip_prefixes_done [of "map rev whitespace" "rev s"]
    by (auto simp add: find_None_iff)
qed

lemma rstrip_prefix: "prefix (rstrip s) s"
  using strip_prefixes_suffix [of "map rev whitespace" "rev s"]
  by (simp add: rstrip_def suffix_to_prefix)

lemma lstrip_suffix: "suffix (lstrip s) s"
  by (simp add: lstrip_def strip_prefixes_suffix)

lemma strip_no_space: "\<not> leading_space (strip s) \<and> \<not> trailing_space (strip s)"
proof
  show "\<not> leading_space (strip s)"
  proof
    assume "leading_space (strip s)"
    then obtain w where w: "w \<in> set whitespace" "prefix w (rstrip (lstrip s))"
      by (auto simp add: leading_space_def strip_def)
    then have "prefix w (lstrip s)"
      using rstrip_prefix [of "lstrip s"] by (meson prefix_order.trans)
    then show False using w lstrip_no_leading [of s] by (auto simp add: leading_space_def)
  qed
  show "\<not> trailing_space (strip s)"
    by (simp add: strip_def rstrip_no_trailing)
qed

lemma strip_sublist: "sublist (strip s) s"
proof -
  have "sublist (rstrip (lstrip s)) (lstrip s)"
    using rstrip_prefix by (rule prefix_imp_sublist)
  moreover have "sublist (lstrip s) s"
    using lstrip_suffix by (rule suffix_imp_sublist)
  ultimately show ?thesis
    unfolding strip_def by (rule sublist_order.order.trans)
qed

section \<open>The text-cleanup pass\<close>

lemma re_sub_pair_length: "length s \<le> length (re_sub_pair p q s)"
  by (induction p q s rule: re_sub_pair.induct) auto

lemma re_sub_digit_letter_keeps:
  assumes "\<not> p (CHR '' '')" and "\<not> q (CHR '' '')" and "\<not> has_pair p q s"
  shows "\<not> has_pair p q (re_sub_digit_letter s)"
  using spaced_has_pair [OF spaced_re_sub_digit_letter, of p q s] assms by blast

text \<open>
  C5. The text-cleanup pass is idempotent: cleaning a cleaned string changes nothing.
  After the three passes no rule has a match left, since each pass removes the
  matches of its own rule and the later passes only insert spaces.
\<close>

theorem clean_response_text_idempotent:
  "clean_response_text (PStr (clean_response_text (PStr s))) = clean_response_text (PStr s)"
proof -
  define s1 where "s1 = re_sub_pair is_period is_upper s"
  define s2 where "s2 = re_sub_pair is_lower is_upper s1"
  define s3 where "s3 = re_sub_digit_letter s2"
  have c1: "\<not> has_pair is_period is_upper s1"
    unfolding s1_def by (rule re_sub_pair_clears) (simp_all add: classes_disjoint space_in_no_class)
  have c2: "\<not> has_pair is_lower is_upper s2"
    unfolding s2_def by (rule re_sub_pair_clears) (simp_all add: classes_disjoint space_in_no_class)
  have c3: "\<not> has_digit_letter s3"
    unfolding s3_def by (rule re_sub_digit_letter_clears)
  have k12: "\<not> has_pair is_period is_upper s2"
    unfolding s2_def using c1 by (intro re_sub_pair_keeps) (simp_all add: space_in_no_class)
  have k13: "\<not> has_pair is_period is_upper s3"
    unfolding s3_def using k12 by (intro re_sub_digit_letter_keeps) (simp_all add: space_in_no_class)
  have k23: "\<not> has_pair is_lower is_upper s3"
    unfolding s3_def using c2 by (intro re_sub_digit_letter_keeps) (simp_all add: space_in_no_class)
  have out: "clean_response_text (PStr s) = s3"
    by (simp add: s1_def s2_def s3_def)
  have "clean_response_text (PStr s3) = s3"
    using k13 k23 c3 by (simp add: re_sub_pair_fix re_sub_digit_letter_fix)
  then show ?thesis by (simp only: out)
qed

lemma clean_examples:
  "re_sub_digit_letter (re_sub_pair is_lower is_upper
     (re_sub_pair is_period is_upper ''Hi.There are3shirtsLeft'')) = ''Hi. There are3 shirts Left''"
  "re_sub_digit_letter (re_sub_pair is_lower is_upper
     (re_sub_pair is_period is_upper [CHR 0xD9, CHR 0xA3, CHR ''a'']))
   = [CHR 0xD9, CHR 0xA3, CHR '' '', CHR ''a'']"
  by (simp_all add: re_sub_digit_letter.simps(2) digit_len_def utf8_len_def is_decimal_def
        decimal_zeros_def is_cont_def is_period_def is_upper_def is_lower_def is_letter_def Let_def)

text \<open>
  C9. \<open>clean_response_text\<close> is total: an argument that is not a string (for
  one, \<open>None\<close>) gives the empty string, and a string gives the string the three
  rules produce, which is never shorter than the argument.
\<close>

theorem clean_response_text_total:
  "((\<forall>s. v \<noteq> PStr s) \<longrightarrow> clean_response_text v = '''')
   \<and> clean_response_text (PStr s) =
       re_sub_digit_letter
         (re_sub_pair is_lower is_upper (re_sub_pair is_period is_upper s))
   \<and> length s \<le> length (clean_response_text (PStr s))"
proof -
  have a: "(\<forall>s. v \<noteq> PStr s) \<longrightarrow> clean_response_text v = ''''"
    by (cases v) simp_all
  have b: "clean_response_text (PStr s) =
     re_sub_digit_letter
       (re_sub_pair is_lower is_upper (re_sub_pair is_period is_upper s))"
    by simp
  have "length s \<le> length (re_sub_pair is_period is_upper s)"
    by (rule re_sub_pair_length)
  also have "\<dots> \<le> length (re_sub_pair is_lower is_upper (re_sub_pair is_period is_upper s))"
    by (rule re_sub_pair_length)
  also have "\<dots> \<le> length (clean_response_text (PStr s))"
    unfolding b by (rule spaced_length) (rule spaced_re_sub_digit_letter)
  finally have c: "length s \<le> length (clean_response_text (PStr s))" .
  from a b c show ?thesis by blast
qed

theorem clean_response_text_total_witness:
  "clean_response_text PNone = '''' \<and> clean_response_text (PInt 7) = ''''
   \<and> clean_response_text (PStr ''Hi.There are3shirtsLeft'') = ''Hi. There are3 shirts Left''
   \<and> clean_response_text (PStr [CHR 0xD9, CHR 0xA3, CHR ''a''])
       = [CHR 0xD9, CHR 0xA3, CHR '' '', CHR ''a'']"
proof -
  have a: "clean_response_text PNone = ''''"
    using clean_response_text_total [of PNone] by simp
  have b: "clean_response_text (PInt 7) = ''''"
    using clean_response_text_total [of "PInt 7"] by simp
  have c: "clean_response_text (PStr ''Hi.There are3shirtsLeft'') = ''Hi. There are3 shirts Left''"
    using clean_response_text_total [of PNone "''Hi.There are3shirtsLeft''"]
    by (simp only: clean_examples)
  have d: "clean_response_text (PStr [CHR 0xD9, CHR 0xA3, CHR ''a''])
       = [CHR 0xD9, CHR 0xA3, CHR '' '', CHR ''a'']"
    using clean_response_text_total [of PNone "[CHR 0xD9, CHR 0xA3, CHR ''a'']"]
    by (simp only: clean_examples)
  from a b c d show ?thesis by simp
qed

section \<open>The translator\<close>

lemma extract_fenced_example:
  "strip (re_sub_fence '''' (re_sub_fence ''sql''
     (strip ''```sql\<newline>SELECT * FROM inventory\<newline>```''))) = ''SELECT * FROM inventory''"
  by code_simp

lemma sql_of_reply:
  "generate_content e (length (llm_log st)) (sql_prompt e question) = Inr raw \<Longrightarrow>
   fst (natural_language_to_sql e question st)
     = strip (re_sub_fence '''' (re_sub_fence ''sql'' (strip raw)))"
  by (simp add: natural_language_to_sql_def Let_def)

text \<open>
  C4. When the model replies to the translation prompt, the SQL that
  \<open>natural_language_to_sql\<close> returns holds no code-fence marker, neither three
  backticks nor three backticks followed by \<open>sql\<close>, and neither starts nor ends
  with white space, whatever the reply is; the fenced reply of the specification gives
  exactly \<open>SELECT * FROM inventory\<close>.
\<close>

theorem natural_language_to_sql_extracts:
  assumes "generate_content e (length (llm_log st)) (sql_prompt e question) = Inr raw"
  shows "\<not> sublist ''```'' (fst (natural_language_to_sql e question st))
       \<and> \<not> sublist ''```sql'' (fst (natural_language_to_sql e question st))
       \<and> \<not> leading_space (fst (natural_language_to_sql e question st))
       \<and> \<not> trailing_space (fst (natural_language_to_sql e question st))
       \<and> (raw = ''```sql\<newline>SELECT * FROM inventory\<newline>```''
            \<longrightarrow> fst (natural_language_to_sql e question st) = ''SELECT * FROM inventory'')"
proof -
  define t where "t = re_sub_fence '''' (re_sub_fence ''sql'' (strip raw))"
  have out: "fst (natural_language_to_sql e question st) = strip t"
    using assms by (simp add: sql_of_reply t_def)
  have "\<not> has_fence t"
    unfolding t_def by (rule re_sub_fence_clears) simp
  then have "\<not> sublist ''```'' t"
    by (simp add: has_fence_sublist backtick_def)
  then have a: "\<not> sublist ''```'' (strip t)"
    using strip_sublist [of t] by (meson sublist_order.order.trans)
  have "sublist ''```'' ''```sql''"
    by (rule prefix_imp_sublist) simp
  then have b: "\<not> sublist ''```sql'' (strip t)"
    using a by (meson sublist_order.order.trans)
  have c: "\<not> leading_space (strip t)" "\<not> trailing_space (strip t)"
    using strip_no_space [of t] by simp_all
  have d: "raw = ''```sql\<newline>SELECT * FROM inventory\<newline>```''
            \<longrightarrow> strip t = ''SELECT * FROM inventory''"
    unfolding t_def using extract_fenced_example by simp
  show ?thesis unfolding out using a b c d by blast
qed

theorem natural_language_to_sql_extracts_witness:
  "fst (natural_language_to_sql
          (example_env (\<lambda>n prompt. Inr ''```sql\<newline>SELECT * FROM inventory\<newline>```'')
             (Inr ()) (\<lambda>sql. Fetched []))
          ''Show me everything'' no_effects) = ''SELECT * FROM inventory''"
  using natural_language_to_sql_extracts
    [of "example_env (\<lambda>n prompt. Inr ''```sql\<newline>SELECT * FROM inventory\<newline>```'')
             (Inr ()) (\<lambda>sql. Fetched [])"
        no_effects "''Show me everything''" "''```sql\<newline>SELECT * FROM inventory\<newline>```''"]
  by (simp add: example_env_def)

section \<open>The formatter\<close>

text \<open>
  C7. When the executor reports no error and the result set is empty,
  \<open>format_response\<close> returns the fixed message and leaves the effects as they
  were: no prompt is sent to the language model.
\<close>

theorem format_response_no_results:
  "format_response e question (Some []) None st
     = (Inr ''I couldn't find any matching results for your question.'', st)"
  by (simp add: format_response_def)

section \<open>The executor\<close>

lemma get_db_connection_ok:
  "connect e = Inr u \<Longrightarrow>
   get_db_connection e st = (True, st\<lparr>db_log := db_log st @ [Connect], connected := True\<rparr>)"
  by (simp add: get_db_connection_def Let_def)

text \<open>
  C2. The claim: once the connection is acquired, \<open>execute_query\<close> closes it
  before returning, whether the statement ran or raised. As amended:
  \<open>conn.close()\<close> is called, once and after the statement, when the statement ran
  and when it raised while \<open>conn.is_connected()\<close> still holds; when the statement
  raised and \<open>conn.is_connected()\<close> is false, the handler does not call
  \<open>close\<close>, and the calls made to the database are the connection attempt and
  the statement only. In each case the connection is not connected at the return.
\<close>

theorem execute_query_close_calls:
  assumes "connect e = Inr u"
  shows "((\<forall>x. run_query e sql_query \<noteq> Raised x False) \<longrightarrow>
            db_log (snd (execute_query e sql_query st))
              = db_log st @ [Connect, Execute sql_query, Close])
       \<and> ((\<exists>x. run_query e sql_query = Raised x False) \<longrightarrow>
            db_log (snd (execute_query e sql_query st))
              = db_log st @ [Connect, Execute sql_query])
       \<and> \<not> connected (snd (execute_query e sql_query st))"
proof (cases "run_query e sql_query")
  case (Fetched results)
  then show ?thesis
    using assms by (simp add: execute_query_def get_db_connection_ok Let_def)
next
  case (Raised x is_connected)
  obtain msg where x: "x = Exception msg" by (cases x)
  show ?thesis
  proof (cases is_connected)
    case True
    then show ?thesis
      using assms Raised x by (simp add: execute_query_def get_db_connection_ok Let_def)
  next
    case False
    then show ?thesis
      using assms Raised x by (simp add: execute_query_def get_db_connection_ok Let_def)
  qed
qed

theorem execute_query_close_calls_witness:
  "db_log (snd (execute_query
       (example_env (\<lambda>n p. Inr '''') (Inr ()) (\<lambda>sql. Fetched [nike_row]))
       ''SELECT * FROM inventory'' no_effects))
     = [Connect, Execute ''SELECT * FROM inventory'', Close]
   \<and> db_log (snd (execute_query
       (example_env (\<lambda>n p. Inr '''') (Inr ()) (\<lambda>sql. Raised (Exception ''syntax error'') True))
       ''SELEC'' no_effects))
     = [Connect, Execute ''SELEC'', Close]
   \<and> db_log (snd (execute_query
       (example_env (\<lambda>n p. Inr '''') (Inr ()) (\<lambda>sql. Raised (Exception ''server has gone away'') False))
       ''SELECT 1'' no_effects))
     = [Connect, Execute ''SELECT 1'']
   \<and> \<not> connected (snd (execute_query
       (example_env (\<lambda>n p. Inr '''') (Inr ()) (\<lambda>sql. Fetched [nike_row]))
       ''SELECT * FROM inventory'' no_effects))"
  using execute_query_close_calls
     [of "example_env (\<lambda>n p. Inr '''') (Inr ()) (\<lambda>sql. Fetched [nike_row])" "()"
         "''SELECT * FROM inventory''" no_effects]
    execute_query_close_calls
     [of "example_env (\<lambda>n p. Inr '''') (Inr ()) (\<lambda>sql. Raised (Exception ''syntax error'') True)" "()"
         "''SELEC''" no_effects]
    execute_query_close_calls
     [of "example_env (\<lambda>n p. Inr '''') (Inr ()) (\<lambda>sql. Raised (Exception ''server has gone away'') False)"
         "()" "''SELECT 1''" no_effects]
  by (simp add: example_env_def no_effects_def)

text \<open>
  The claim C2 as stated fails: when the statement raises because the connection was
  lost, so that \<open>conn.is_connected()\<close> is false in the handler,
  \<open>execute_query\<close> returns the error without a call of \<open>conn.close()\<close>.
\<close>

theorem execute_query_skips_close:
  "connect lost_connection_env = Inr ()
   \<and> fst (execute_query lost_connection_env ''SELECT * FROM inventory'' no_effects)
       = (None, Some ''Lost connection to MySQL server during query'')
   \<and> db_log (snd (execute_query lost_connection_env ''SELECT * FROM inventory'' no_effects))
       = [Connect, Execute ''SELECT * FROM inventory'']
   \<and> Close \<notin> set (db_log (snd (execute_query lost_connection_env
                                ''SELECT * FROM inventory'' no_effects)))"
  by (simp add: execute_query_def get_db_connection_def Let_def lost_connection_env_def
        example_env_def no_effects_def)

section \<open>The orchestrator and translation failures\<close>

lemma natural_language_to_sql_effects:
  "snd (natural_language_to_sql e question st)
     = st\<lparr>llm_log := llm_log st @ [sql_prompt e question]\<rparr>"
  by (cases "generate_content e (length (llm_log st)) (sql_prompt e question)")
     (auto simp add: natural_language_to_sql_def Let_def split: exn.splits)

lemma main_get_answer_error:
  assumes "question \<noteq> ''''" and "prefix ''Error'' (fst (natural_language_to_sql e question st))"
  shows "main_get_answer e question st
           = (Inr (Error (fst (natural_language_to_sql e question st))),
              st\<lparr>llm_log := llm_log st @ [sql_prompt e question]\<rparr>)"
proof -
  obtain sql st1 where r: "natural_language_to_sql e question st = (sql, st1)"
    by (cases "natural_language_to_sql e question st")
  have "st1 = st\<lparr>llm_log := llm_log st @ [sql_prompt e question]\<rparr>"
    using natural_language_to_sql_effects [of e question st] r by simp
  then show ?thesis
    using assms r by (simp add: main_get_answer_def)
qed

text \<open>
  C3. When the model call of the translator raises, \<open>natural_language_to_sql\<close>
  returns \<open>Error generating SQL: \<close> followed by the message of the exception.
  For a non-empty question and any result of the translator with that prefix, the
  handler shows the string as an error; the database log and the connection are as
  before, so \<open>execute_query\<close>, whose first step is a connection attempt, did not
  run, and the one prompt sent is the translation prompt.
\<close>

theorem translation_error_short_circuits:
  "(generate_content e (length (llm_log st)) (sql_prompt e question) = Inl (Exception cause)
      \<longrightarrow> fst (natural_language_to_sql e question st) = ''Error generating SQL: '' @ cause)
   \<and> (question \<noteq> ''''
        \<and> prefix ''Error generating SQL: '' (fst (natural_language_to_sql e question st))
      \<longrightarrow> fst (main_get_answer e question st)
            = Inr (Error (fst (natural_language_to_sql e question st)))
          \<and> db_log (snd (main_get_answer e question st)) = db_log st
          \<and> connected (snd (main_get_answer e question st)) = connected st
          \<and> llm_log (snd (main_get_answer e question st)) = llm_log st @ [sql_prompt e question])"
proof -
  have a: "generate_content e (length (llm_log st)) (sql_prompt e question) = Inl (Exception cause)
      \<longrightarrow> fst (natural_language_to_sql e question st) = ''Error generating SQL: '' @ cause"
    by (simp add: natural_language_to_sql_def Let_def)
  have b: "fst (main_get_answer e question st)
            = Inr (Error (fst (natural_language_to_sql e question st)))
          \<and> db_log (snd (main_get_answer e question st)) = db_log st
          \<and> connected (snd (main_get_answer e question st)) = connected st
          \<and> llm_log (snd (main_get_answer e question st)) = llm_log st @ [sql_prompt e question]"
    if q: "question \<noteq> ''''"
      and p: "prefix ''Error generating SQL: '' (fst (natural_language_to_sql e question st))"
  proof -
    have "prefix ''Error'' ''Error generating SQL: ''" by simp
    then have "prefix ''Error'' (fst (natural_language_to_sql e question st))"
      using p by (rule prefix_order.trans)
    then show ?thesis
      using main_get_answer_error [OF q] by simp
  qed
  from a b show ?thesis by blast
qed

theorem translation_error_short_circuits_witness:
  "fst (natural_language_to_sql
          (example_env (\<lambda>n p. Inl (Exception ''quota exceeded'')) (Inr ()) (\<lambda>sql. Fetched []))
          ''Any discounts on Adidas?'' no_effects)
     = ''Error generating SQL: quota exceeded''
   \<and> fst (main_get_answer
          (example_env (\<lambda>n p. Inl (Exception ''quota exceeded'')) (Inr ()) (\<lambda>sql. Fetched []))
          ''Any discounts on Adidas?'' no_effects)
     = Inr (Error ''Error generating SQL: quota exceeded'')
   \<and> db_log (snd (main_get_answer
          (example_env (\<lambda>n p. Inl (Exception ''quota exceeded'')) (Inr ()) (\<lambda>sql. Fetched []))
          ''Any discounts on Adidas?'' no_effects)) = []"
proof -
  define e where "e = example_env (\<lambda>n p. Inl (Exception ''quota exceeded'')) (Inr ()) (\<lambda>sql. Fetched [])"
  define q where "q = ''Any discounts on Adidas?''"
  note t = translation_error_short_circuits [of e no_effects q "''quota exceeded''"]
  have h: "generate_content e (length (llm_log no_effects)) (sql_prompt e q)
             = Inl (Exception ''quota exceeded'')"
    by (simp add: e_def example_env_def)
  have s: "fst (natural_language_to_sql e q no_effects) = ''Error generating SQL: quota exceeded''"
    using t h by simp
  have p: "prefix ''Error generating SQL: '' (fst (natural_language_to_sql e q no_effects))"
    by (simp add: s)
  have nq: "q \<noteq> ''''" by (simp add: q_def)
  have "fst (main_get_answer e q no_effects) = Inr (Error ''Error generating SQL: quota exceeded'')
        \<and> db_log (snd (main_get_answer e q no_effects)) = []"
    using t p nq s by (simp add: no_effects_def)
  then show ?thesis using s by (simp add: e_def q_def)
qed

lemma error_reply_example:
  "strip (re_sub_fence '''' (re_sub_fence ''sql''
     (strip ''```sql\<newline>Error: I can only answer questions about the store\<newline>```'')))
   = ''Error: I can only answer questions about the store''"
  by code_simp

text \<open>
  C8. The handler tells a failed translation by the prefix \<open>Error\<close> alone. When
  the model call succeeds and the extracted text starts with \<open>Error\<close>, the
  request is shown as an error and the database is not touched; and an error is shown
  for a non-empty question exactly when the extracted text has that prefix.
\<close>

theorem error_prefix_reported_as_failure:
  assumes "question \<noteq> ''''"
    and "generate_content e (length (llm_log st)) (sql_prompt e question) = Inr raw"
  shows "fst (natural_language_to_sql e question st)
           = strip (re_sub_fence '''' (re_sub_fence ''sql'' (strip raw)))
       \<and> (prefix ''Error'' (strip (re_sub_fence '''' (re_sub_fence ''sql'' (strip raw)))) \<longrightarrow>
            fst (main_get_answer e question st)
              = Inr (Error (strip (re_sub_fence '''' (re_sub_fence ''sql'' (strip raw)))))
            \<and> db_log (snd (main_get_answer e question st)) = db_log st
            \<and> connected (snd (main_get_answer e question st)) = connected st)
       \<and> ((\<exists>t. fst (main_get_answer e question st) = Inr (Error t))
            = prefix ''Error'' (strip (re_sub_fence '''' (re_sub_fence ''sql'' (strip raw)))))"
proof -
  define sql where "sql = strip (re_sub_fence '''' (re_sub_fence ''sql'' (strip raw)))"
  have out: "fst (natural_language_to_sql e question st) = sql"
    using assms(2) by (simp add: sql_of_reply sql_def)
  have a: "fst (main_get_answer e question st) = Inr (Error sql)
            \<and> db_log (snd (main_get_answer e question st)) = db_log st
            \<and> connected (snd (main_get_answer e question st)) = connected st"
    if "prefix ''Error'' sql"
    using main_get_answer_error [OF assms(1), of e st] that out by simp
  have b: "\<not> (\<exists>t. fst (main_get_answer e question st) = Inr (Error t))"
    if "\<not> prefix ''Error'' sql"
  proof -
    obtain st1 where r: "natural_language_to_sql e question st = (sql, st1)"
      using out by (cases "natural_language_to_sql e question st") simp
    show ?thesis
      using that r assms(1)
      by (auto simp add: main_get_answer_def split: prod.splits sum.splits)
  qed
  show ?thesis
    unfolding sql_def [symmetric] using out a b by blast
qed

theorem error_prefix_reported_as_failure_witness:
  "fst (main_get_answer
          (example_env
             (\<lambda>n p. Inr ''```sql\<newline>Error: I can only answer questions about the store\<newline>```'')
             (Inr ()) (\<lambda>sql. Fetched [nike_row]))
          ''What is the weather?'' no_effects)
     = Inr (Error ''Error: I can only answer questions about the store'')
   \<and> db_log (snd (main_get_answer
          (example_env
             (\<lambda>n p. Inr ''```sql\<newline>Error: I can only answer questions about the store\<newline>```'')
             (Inr ()) (\<lambda>sql. Fetched [nike_row]))
          ''What is the weather?'' no_effects)) = []"
proof -
  define e where "e = example_env
             (\<lambda>n p. Inr ''```sql\<newline>Error: I can only answer questions about the store\<newline>```'')
             (Inr ()) (\<lambda>sql. Fetched [nike_row])"
  define q where "q = ''What is the weather?''"
  have h: "generate_content e (length (llm_log no_effects)) (sql_prompt e q)
             = Inr ''```sql\<newline>Error: I can only answer questions about the store\<newline>```''"
    by (simp add: e_def example_env_def)
  have nq: "q \<noteq> ''''" by (simp add: q_def)
  note t = error_prefix_reported_as_failure [OF nq h]
  have "fst (main_get_answer e q no_effects)
          = Inr (Error ''Error: I can only answer questions about the store'')
        \<and> db_log (snd (main_get_answer e q no_effects)) = []"
    using t by (simp add: error_reply_example no_effects_def)
  then show ?thesis by (simp add: e_def q_def)
qed

section \<open>The fallback formatter\<close>

lemma str_nat_1: "str_nat (Suc 0) = ''1''"
  by (simp add: str_nat.simps [of "Suc 0"] digit_char_def)

lemma fmt: "format_2f (Finite False 39 (- 1)) = ''19.50''"
  by (simp add: round_half_even_def Let_def str_nat.simps [of 19] str_nat_1 digit_char_def)

lemma nike_frame_text:
  "format_dataframe_simple nike_frame =
     Inr (''Found 1 results:\<newline>\<newline>**Nike - Tee**\<newline>Size: L'' @ details_separator
          @ ''Color: Black'' @ details_separator @ ''Price: $19.50'' @ details_separator
          @ ''Stock: 3 units\<newline>\<newline>'')"
  by (simp add: format_dataframe_simple_def nike_frame_def frame_of_rows_def nike_row_def
        empty_def len_def iterrows_def has_key_def str_nat_1 fmt del: format_2f.simps)

lemma sublist_mid: "sublist xs (ps @ xs @ ss)"
  unfolding sublist_def by blast

text \<open>
  C6. For the row of the example, the fallback formatter returns a text that contains
  \<open>Nike - Tee\<close>, \<open>Size: L\<close>, \<open>Price: $19.50\<close> and
  \<open>Stock: 3 units\<close>; for a frame without rows it returns
  \<open>No results found.\<close>, which is not the empty string.
\<close>

theorem format_dataframe_simple_example:
  "(\<exists>out. format_dataframe_simple nike_frame = Inr out
      \<and> sublist ''Nike - Tee'' out \<and> sublist ''Size: L'' out
      \<and> sublist ''Price: $19.50'' out \<and> sublist ''Stock: 3 units'' out)
   \<and> format_dataframe_simple (df\<lparr>data := []\<rparr>) = Inr ''No results found.''
   \<and> ''No results found.'' \<noteq> ''''"
proof -
  define out where "out = ''Found 1 results:\<newline>\<newline>**Nike - Tee**\<newline>Size: L'' @ details_separator
          @ ''Color: Black'' @ details_separator @ ''Price: $19.50'' @ details_separator
          @ ''Stock: 3 units\<newline>\<newline>''"
  have r: "format_dataframe_simple nike_frame = Inr out"
    by (simp only: nike_frame_text out_def)
  have a: "sublist ''Nike - Tee'' out"
    using sublist_mid [of "''Nike - Tee''" "''Found 1 results:\<newline>\<newline>**''"
        "''**\<newline>Size: L'' @ details_separator
          @ ''Color: Black'' @ details_separator @ ''Price: $19.50'' @ details_separator
          @ ''Stock: 3 units\<newline>\<newline>''"]
    by (simp add: out_def)
  have b: "sublist ''Size: L'' out"
    using sublist_mid [of "''Size: L''" "''Found 1 results:\<newline>\<newline>**Nike - Tee**\<newline>''"
        "details_separator
          @ ''Color: Black'' @ details_separator @ ''Price: $19.50'' @ details_separator
          @ ''Stock: 3 units\<newline>\<newline>''"]
    by (simp add: out_def)
  have c: "sublist ''Price: $19.50'' out"
    using sublist_mid [of "''Price: $19.50''"
        "''Found 1 results:\<newline>\<newline>**Nike - Tee**\<newline>Size: L'' @ details_separator
          @ ''Color: Black'' @ details_separator"
        "details_separator @ ''Stock: 3 units\<newline>\<newline>''"]
    by (simp add: out_def)
  have d: "sublist ''Stock: 3 units'' out"
    using sublist_mid [of "''Stock: 3 units''"
        "''Found 1 results:\<newline>\<newline>**Nike - Tee**\<newline>Size: L'' @ details_separator
          @ ''Color: Black'' @ details_separator @ ''Price: $19.50'' @ details_separator"
        "''\<newline>\<newline>''"]
    by (simp add: out_def)
  have e: "format_dataframe_simple (df\<lparr>data := []\<rparr>) = Inr ''No results found.''"
    by (simp add: format_dataframe_simple_def empty_def)
  from r a b c d e show ?thesis by auto
qed

lemma iterrows_loop_step:
  assumes "has_key ''brand'' r \<and> has_key ''product_name'' r \<longrightarrow> price_converts r"
  shows "iterrows_loop acc (r # rows) = iterrows_loop (acc @ row_text r) rows"
proof (cases "has_key ''brand'' r \<and> has_key ''product_name'' r")
  case False
  then show ?thesis by (auto simp add: row_text_def generic_join_def)
next
  case True
  then have "price_converts r" using assms by simp
  then show ?thesis
    using True
    by (auto simp add: row_text_def labeled_summary_def price_converts_def Let_def
          split: option.splits sum.splits)
qed

lemma iterrows_loop_all:
  assumes "\<forall>r \<in> set rows. has_key ''brand'' r \<and> has_key ''product_name'' r \<longrightarrow> price_converts r"
  shows "iterrows_loop acc rows = Inr (acc @ concat (map row_text rows))"
  using assms
proof (induction rows arbitrary: acc)
  case Nil
  then show ?case by simp
next
  case (Cons r rows)
  have "iterrows_loop acc (r # rows) = iterrows_loop (acc @ row_text r) rows"
    using Cons.prems by (intro iterrows_loop_step) simp
  then show ?case using Cons by simp
qed

lemma format_dataframe_simple_rows:
  assumes "\<not> empty df"
    and "\<forall>r \<in> set (iterrows df).
           has_key ''brand'' r \<and> has_key ''product_name'' r \<longrightarrow> price_converts r"
  shows "format_dataframe_simple df
           = Inr (''Found '' @ str_nat (len df) @ '' results:\<newline>\<newline>''
                  @ concat (map row_text (iterrows df)))"
  using assms by (simp add: format_dataframe_simple_def iterrows_loop_all)

text \<open>
  C10. The claim: every row is rendered, as a labelled summary when it has the keys
  \<open>brand\<close> and \<open>product_name\<close> and as a generic join otherwise, after
  the header. \<open>format_dataframe_simple_rows\<close> above shows this for the frames in
  which \<open>float()\<close> accepts every price. For a result set with a \<open>NULL\<close>
  price the formatter returns no text at all: it raises, and neither row appears.
\<close>

theorem format_dataframe_simple_raises_on_price:
  "format_dataframe_simple (frame_of_rows [priced_row, null_price_row])
     = Inl float_of_none"
  by (simp add: format_dataframe_simple_def frame_of_rows_def priced_row_def null_price_row_def
        empty_def len_def iterrows_def has_key_def del: format_2f.simps)

section \<open>The text shown for a question\<close>

lemma iterrows_loop_grows:
  "iterrows_loop acc rows = Inr t \<Longrightarrow> length acc \<le> length t"
proof (induction rows arbitrary: acc)
  case Nil
  then show ?case by simp
next
  case (Cons r rows)
  show ?case
  proof (cases "has_key ''brand'' r \<and> has_key ''product_name'' r")
    case False
    then obtain acc' where "iterrows_loop acc' rows = Inr t" "length acc \<le> length acc'"
      using Cons.prems by (auto simp add: Let_def)
    then show ?thesis using Cons.IH [of acc'] by simp
  next
    case True
    then obtain acc' where "iterrows_loop acc' rows = Inr t" "length acc \<le> length acc'"
      using Cons.prems
      by (auto simp add: Let_def split: option.splits sum.splits)
    then show ?thesis using Cons.IH [of acc'] by simp
  qed
qed

lemma format_dataframe_simple_nonempty:
  "format_dataframe_simple df = Inr t \<Longrightarrow> t \<noteq> ''''"
proof (cases "empty df")
  case True
  assume "format_dataframe_simple df = Inr t"
  then show ?thesis using True by (auto simp add: format_dataframe_simple_def)
next
  case False
  assume "format_dataframe_simple df = Inr t"
  then have "iterrows_loop (''Found '' @ str_nat (len df) @ '' results:\<newline>\<newline>'') (iterrows df) = Inr t"
    using False by (simp add: format_dataframe_simple_def)
  then have "length (''Found '' @ str_nat (len df) @ '' results:\<newline>\<newline>'') \<le> length t"
    by (rule iterrows_loop_grows)
  then show ?thesis by auto
qed

lemma clean_response_text_nonempty:
  "s \<noteq> '''' \<Longrightarrow> clean_response_text (PStr s) \<noteq> ''''"
proof -
  assume "s \<noteq> ''''"
  have "length s \<le> length (re_sub_pair is_period is_upper s)"
    by (rule re_sub_pair_length)
  also have "\<dots> \<le> length (re_sub_pair is_lower is_upper (re_sub_pair is_period is_upper s))"
    by (rule re_sub_pair_length)
  also have "\<dots> \<le> length (clean_response_text (PStr s))"
    by (simp add: spaced_length [OF spaced_re_sub_digit_letter])
  finally show ?thesis using \<open>s \<noteq> ''''\<close> by auto
qed

lemma format_response_cases:
  "(\<exists>t. fst (format_response e question results error st) = Inr t \<and> t \<noteq> '''')
   \<or> (\<exists>prompt text. generate_content e (length (llm_log st)) prompt = Inr text
         \<and> strip text = ''''
         \<and> fst (format_response e question results error st) = Inr '''')
   \<or> (\<exists>prompt y x rows. generate_content e (length (llm_log st)) prompt = Inl y
         \<and> format_dataframe_simple (DataFrame e rows) = Inl x
         \<and> fst (format_response e question results error st) = Inl x)"
proof (cases "\<exists>c msg. error = Some (c # msg)")
  case True
  then show ?thesis by (auto simp add: format_response_def)
next
  case no_error: False
  show ?thesis
  proof (cases "\<exists>r rows. results = Some (r # rows)")
    case False
    then show ?thesis
      using no_error
      by (auto simp add: format_response_def split: option.splits list.splits)
  next
    case True
    then obtain r rows where res: "results = Some (r # rows)" by blast
    define df where "df = DataFrame e (r # rows)"
    define prompt where "prompt = response_prompt e question df"
    have fr: "fst (format_response e question results error st)
        = (case generate_content e (length (llm_log st)) prompt of
             Inr text \<Rightarrow> Inr (clean_response_text (PStr (strip text)))
           | Inl y \<Rightarrow> format_dataframe_simple df)"
      using no_error res
      by (auto simp add: format_response_def df_def prompt_def Let_def
            split: option.splits list.splits sum.splits)
    show ?thesis
    proof (cases "generate_content e (length (llm_log st)) prompt")
      case (Inr reply)
      show ?thesis
      proof (cases "strip reply = ''''")
        case True
        then show ?thesis using fr Inr by auto
      next
        case False
        then have "clean_response_text (PStr (strip reply)) \<noteq> ''''"
          by (rule clean_response_text_nonempty)
        then show ?thesis using fr Inr by simp
      qed
    next
      case (Inl y)
      show ?thesis
      proof (cases "format_dataframe_simple df")
        case (Inr t)
        then have "t \<noteq> ''''" by (rule format_dataframe_simple_nonempty)
        then show ?thesis using fr Inl Inr by simp
      next
        case bad: (Inl x)
        then show ?thesis using fr Inl df_def by auto
      qed
    qed
  qed
qed

lemma execute_query_llm_log:
  "llm_log (snd (execute_query e sql_query st)) = llm_log st"
  by (auto simp add: execute_query_def get_db_connection_def Let_def
        split: sum.splits exn.splits db_outcome.splits)

lemma select_reply_example:
  "strip (re_sub_fence '''' (re_sub_fence ''sql'' (strip ''SELECT * FROM inventory'')))
   = ''SELECT * FROM inventory''"
  by code_simp

lemma strip_blank: "strip '' '' = ''''"
  by code_simp

text \<open>
  C1. The claim: for every question the handler shows a text that is not empty, and no
  fault reaches the caller. As amended: when the model does not answer the formatting
  prompt (the second call of the request) with white space only, the handler either
  shows a text that is not empty, or the formatting call raised and the fault is the
  exception that the fallback formatter raised. A failed translation, a failed
  connection, a failed statement, an empty result and a failed formatting call with a
  fallback that returns are all among the first case.
\<close>

theorem main_get_answer_text:
  assumes "\<And>prompt reply.
             generate_content e (Suc (length (llm_log st))) prompt = Inr reply \<Longrightarrow> strip reply \<noteq> ''''"
  shows "(\<exists>d. fst (main_get_answer e question st) = Inr d \<and> display_text d \<noteq> '''')
       \<or> (\<exists>prompt y x rows.
             generate_content e (Suc (length (llm_log st))) prompt = Inl y
             \<and> format_dataframe_simple (DataFrame e rows) = Inl x
             \<and> fst (main_get_answer e question st) = Inl x)"
proof (cases "question = ''''")
  case True
  then show ?thesis by (simp add: main_get_answer_def)
next
  case q: False
  obtain sql st1 where tr: "natural_language_to_sql e question st = (sql, st1)"
    by (cases "natural_language_to_sql e question st")
  have st1: "st1 = st\<lparr>llm_log := llm_log st @ [sql_prompt e question]\<rparr>"
    using natural_language_to_sql_effects [of e question st] tr by simp
  show ?thesis
  proof (cases "prefix ''Error'' sql")
    case True
    then have "sql \<noteq> ''''" by auto
    then show ?thesis using q tr True by (simp add: main_get_answer_def)
  next
    case False
    obtain results error st2 where ex: "execute_query e sql st1 = ((results, error), st2)"
      by (cases "execute_query e sql st1") auto
    have "llm_log st2 = llm_log st1"
      using execute_query_llm_log [of e sql st1] ex by simp
    then have n: "length (llm_log st2) = Suc (length (llm_log st))"
      using st1 by simp
    obtain response st3 where fr: "format_response e question results error st2 = (response, st3)"
      by (cases "format_response e question results error st2")
    have m: "fst (main_get_answer e question st)
               = (case response of Inl x \<Rightarrow> Inl x | Inr t \<Rightarrow> Inr (Answer t sql results))"
      using q tr False ex fr by (simp add: main_get_answer_def split: sum.splits)
    from format_response_cases [of e question results error st2]
    consider (shown) t where "response = Inr t" "t \<noteq> ''''"
      | (blank) prompt reply where
          "generate_content e (Suc (length (llm_log st))) prompt = Inr reply" "strip reply = ''''"
      | (raised) prompt y x rows where
          "generate_content e (Suc (length (llm_log st))) prompt = Inl y"
          "format_dataframe_simple (DataFrame e rows) = Inl x" "response = Inl x"
      unfolding n using fr by auto
    then show ?thesis
    proof cases
      case shown
      then show ?thesis using m by simp
    next
      case blank
      then show ?thesis using assms by blast
    next
      case raised
      then show ?thesis using m by auto
    qed
  qed
qed

theorem main_get_answer_text_witness:
  "(\<exists>d. fst (main_get_answer fallback_env ''Do we have Nike shirts in size L?'' no_effects) = Inr d
        \<and> display_text d \<noteq> '''')
   \<and> fst (main_get_answer fallback_env ''Do we have Nike shirts in size L?'' no_effects)
       = Inr (Answer
               (''Found 1 results:\<newline>\<newline>**Nike - Tee**\<newline>Size: L'' @ details_separator
                @ ''Color: Black'' @ details_separator @ ''Price: $19.50'' @ details_separator
                @ ''Stock: 3 units\<newline>\<newline>'')
               ''SELECT * FROM inventory'' (Some [nike_row]))"
proof -
  have h: "generate_content fallback_env (Suc (length (llm_log no_effects))) prompt = Inr reply
             \<Longrightarrow> strip reply \<noteq> ''''" for prompt reply
    by (simp add: fallback_env_def example_env_def no_effects_def)
  have sql: "natural_language_to_sql fallback_env q no_effects
               = (''SELECT * FROM inventory'', no_effects\<lparr>llm_log := [sql_prompt fallback_env q]\<rparr>)"
    for q
    by (simp add: natural_language_to_sql_def Let_def fallback_env_def example_env_def
          no_effects_def select_reply_example)
  have df: "DataFrame fallback_env [nike_row] = nike_frame"
    by (simp add: fallback_env_def example_env_def nike_frame_def)
  have gen: "generate_content fallback_env (Suc 0) prompt = Inl (Exception ''429 quota exceeded'')"
    for prompt
    by (simp add: fallback_env_def example_env_def)
  have ex: "fst (execute_query fallback_env ''SELECT * FROM inventory'' S) = (Some [nike_row], None)"
    for S
    by (simp add: execute_query_def get_db_connection_def Let_def fallback_env_def example_env_def)
  have fr: "fst (format_response fallback_env q (Some [nike_row]) None S)
              = format_dataframe_simple nike_frame"
    if "length (llm_log S) = Suc 0" for S q
    using that by (simp add: format_response_def Let_def df gen)
  define q where "q = ''Do we have Nike shirts in size L?''"
  define S1 where "S1 = no_effects\<lparr>llm_log := [sql_prompt fallback_env q]\<rparr>"
  obtain res S2 where e2: "execute_query fallback_env ''SELECT * FROM inventory'' S1 = (res, S2)"
    by (cases "execute_query fallback_env ''SELECT * FROM inventory'' S1")
  have res: "res = (Some [nike_row], None)"
    using ex [of S1] e2 by simp
  have "llm_log S2 = llm_log S1"
    using execute_query_llm_log [of fallback_env "''SELECT * FROM inventory''" S1] e2 by simp
  then have len: "length (llm_log S2) = Suc 0"
    by (simp add: S1_def)
  obtain response S3 where
    f3: "format_response fallback_env q (Some [nike_row]) None S2 = (response, S3)"
    by (cases "format_response fallback_env q (Some [nike_row]) None S2")
  have resp: "response = format_dataframe_simple nike_frame"
    using fr [OF len, of q] f3 by simp
  have nq: "q \<noteq> ''''" by (simp add: q_def)
  have r: "fst (main_get_answer fallback_env q no_effects)
       = Inr (Answer
               (''Found 1 results:\<newline>\<newline>**Nike - Tee**\<newline>Size: L'' @ details_separator
                @ ''Color: Black'' @ details_separator @ ''Price: $19.50'' @ details_separator
                @ ''Stock: 3 units\<newline>\<newline>'')
               ''SELECT * FROM inventory'' (Some [nike_row]))"
    using nq e2 f3
    by (simp add: main_get_answer_def sql S1_def [symmetric] res resp nike_frame_text)
  have "\<exists>d. fst (main_get_answer fallback_env q no_effects) = Inr d \<and> display_text d \<noteq> ''''"
    using main_get_answer_text [of fallback_env no_effects q, OF h] r by auto
  then show ?thesis using r by (simp add: q_def)
qed

text \<open>
  The claim C1 as stated fails: when the model answers the formatting prompt with a
  single space, the text shown is the empty string.
\<close>

theorem main_get_answer_empty_text:
  "fst (main_get_answer blank_reply_env ''Do we have Nike shirts in size L?'' no_effects)
     = Inr (Answer '''' ''SELECT * FROM inventory'' (Some [nike_row]))"
proof -
  have sql: "natural_language_to_sql blank_reply_env q no_effects
               = (''SELECT * FROM inventory'', no_effects\<lparr>llm_log := [sql_prompt blank_reply_env q]\<rparr>)"
    for q
    by (simp add: natural_language_to_sql_def Let_def blank_reply_env_def example_env_def
          no_effects_def select_reply_example)
  have gen: "generate_content blank_reply_env (Suc 0) prompt = Inr '' ''" for prompt
    by (simp add: blank_reply_env_def example_env_def)
  have ex: "fst (execute_query blank_reply_env ''SELECT * FROM inventory'' S) = (Some [nike_row], None)"
    for S
    by (simp add: execute_query_def get_db_connection_def Let_def blank_reply_env_def example_env_def)
  have fr: "fst (format_response blank_reply_env q (Some [nike_row]) None S) = Inr ''''"
    if "length (llm_log S) = Suc 0" for S q
    using that by (simp add: format_response_def Let_def gen strip_blank)
  define q where "q = ''Do we have Nike shirts in size L?''"
  define S1 where "S1 = no_effects\<lparr>llm_log := [sql_prompt blank_reply_env q]\<rparr>"
  obtain res S2 where e2: "execute_query blank_reply_env ''SELECT * FROM inventory'' S1 = (res, S2)"
    by (cases "execute_query blank_reply_env ''SELECT * FROM inventory'' S1")
  have res: "res = (Some [nike_row], None)"
    using ex [of S1] e2 by simp
  have "llm_log S2 = llm_log S1"
    using execute_query_llm_log [of blank_reply_env "''SELECT * FROM inventory''" S1] e2 by simp
  then have len: "length (llm_log S2) = Suc 0"
    by (simp add: S1_def)
  obtain response S3 where
    f3: "format_response blank_reply_env q (Some [nike_row]) None S2 = (response, S3)"
    by (cases "format_response blank_reply_env q (Some [nike_row]) None S2")
  have resp: "response = Inr ''''"
    using fr [OF len, of q] f3 by simp
  have nq: "q \<noteq> ''''" by (simp add: q_def)
  have "fst (main_get_answer blank_reply_env q no_effects)
       = Inr (Answer '''' ''SELECT * FROM inventory'' (Some [nike_row]))"
    using nq e2 f3
    by (simp add: main_get_answer_def sql S1_def [symmetric] res resp)
  then show ?thesis by (simp add: q_def)
qed

end
